theory Spec2Isabelle
  imports Complex_Main "HOL-Library.Sublist"
begin

section \<open>Strings\<close>

text \<open>
  JavaScript strings are modelled as \<^typ>\<open>string\<close>; one \<^typ>\<open>char\<close> stands for one
  code unit, so the model covers the code units below 256. \<open>is_ws\<close> is the white space
  of \<open>String.prototype.trim\<close> and of the regular expression class of white space in
  that range: space, tab, line feed, vertical tab, form feed, carriage return and the
  no-break space.
\<close>

definition is_ws :: "char \<Rightarrow> bool" where
  "is_ws c \<longleftrightarrow> c = CHR '' '' \<or> c = CHR 0x09 \<or> c = CHR 0x0A \<or> c = CHR 0x0B
     \<or> c = CHR 0x0C \<or> c = CHR 0x0D \<or> c = CHR 0xA0"

definition trim :: "string \<Rightarrow> string" where
  "trim s = rev (dropWhile is_ws (rev (dropWhile is_ws s)))"

text \<open>
  \<open>after_first d s\<close> is what follows the first occurrence of \<open>d\<close> in \<open>s\<close>, if there
  is one: where a lazy match of any characters up to \<open>d\<close> ends.
\<close>

fun after_first :: "string \<Rightarrow> string \<Rightarrow> string option" where
  "after_first d [] = (if d = [] then Some [] else None)"
| "after_first d (c # cs) =
     (if prefix d (c # cs) then Some (drop (length d) (c # cs)) else after_first d cs)"

lemma after_first_length: "after_first d s = Some r \<Longrightarrow> length r \<le> length s"
  by (induction s) (auto split: if_splits)

section \<open>Input sanitizer: \<open>sanitizeUserInput\<close> of \<open>server/rag.ts\<close>\<close>

text \<open>
  \<open>strip_regions opn cls s\<close> is the global replacement by the empty string of the
  pattern "\<open>opn\<close>, then lazily any characters, then \<open>cls\<close>", for literal delimiters:
  scanning from the left, a position where \<open>opn\<close> starts and a later \<open>cls\<close> exists is
  a match that runs to the end of the first such \<open>cls\<close>, and the scan resumes after
  the match. Any other position keeps its character.
\<close>

function strip_regions :: "string \<Rightarrow> string \<Rightarrow> string \<Rightarrow> string" where
  "strip_regions opn cls [] = []"
| "strip_regions opn cls (c # cs) =
     (if opn \<noteq> [] \<and> prefix opn (c # cs) then
        (case after_first cls (drop (length opn) (c # cs)) of
           Some rest \<Rightarrow> strip_regions opn cls rest
         | None \<Rightarrow> c # strip_regions opn cls cs)
      else c # strip_regions opn cls cs)"
  by pat_completeness auto
termination
proof (relation "measure (\<lambda>(opn, cls, s). length s)")
  fix opn cls :: string and c cs rest
  assume "opn \<noteq> [] \<and> prefix opn (c # cs)"
    and "after_first cls (drop (length opn) (c # cs)) = Some rest"
  then have "length rest \<le> length (c # cs) - length opn" and "0 < length opn"
    using after_first_length [of cls "drop (length opn) (c # cs)" rest] by auto
  then show "((opn, cls, rest), (opn, cls, c # cs)) \<in> measure (\<lambda>(opn, cls, s). length s)"
    by (cases opn) auto
qed auto

text \<open>
  The three replacements (fenced blocks, double braces, dollar-brace interpolation),
  \<open>trim\<close>, then the cut at 5000 code units. The source returns the empty string for a
  falsy input, which for a string is the empty one.
\<close>

definition sanitizeUserInput :: "string \<Rightarrow> string" where
  "sanitizeUserInput input =
     (if input = [] then []
      else let sanitized = trim (strip_regions ''${'' ''}'' (strip_regions ''{{'' ''}}''
                 (strip_regions ''```'' ''```'' input)))
           in if length sanitized > 5000 then take 5000 sanitized else sanitized)"



section \<open>Document chunking: \<open>chunkDocument\<close>, \<open>intelligentChunk\<close> of \<open>server/rag.ts\<close>\<close>

text \<open>
  JavaScript numbers that hold sizes, offsets and budgets are modelled as \<^typ>\<open>int\<close>:
  the source reads them with \<open>parseInt\<close> and nothing keeps a caller from passing a
  negative one. \<open>substring s a b\<close> is \<open>s.substring(a, b)\<close>: both ends are clamped to
  the string and swapped when out of order.
\<close>

definition substring :: "string \<Rightarrow> int \<Rightarrow> int \<Rightarrow> string" where
  "substring s a b =
     (let n = int (length s);
          a' = max 0 (min a n);
          b' = max 0 (min b n);
          lo = min a' b';
          hi = max a' b'
      in take (nat (hi - lo)) (drop (nat lo) s))"

text \<open>
  The \<open>while\<close> loop of \<open>chunkDocument\<close>. Nothing in the source bounds the number of
  rounds, so the loop is a partial function: \<open>None\<close> is the run that never leaves the
  loop. The state is \<open>start\<close> and the \<open>chunks\<close> pushed so far; \<open>break\<close> is the branch
  that returns.
\<close>

partial_function (option) chunk_loop ::
  "string \<Rightarrow> int \<Rightarrow> int \<Rightarrow> int \<Rightarrow> string list \<Rightarrow> string list option" where
  "chunk_loop content chunkSize overlap start chunks =
     (if start < int (length content) then
        (let end = min (start + chunkSize) (int (length content));
             chunk = trim (substring content start end);
             chunks' = (if length chunk > 0 then chunks @ [chunk] else chunks);
             start' = end - overlap
         in if start' < 0 then Some chunks'
            else chunk_loop content chunkSize overlap start' chunks')
      else Some chunks)"

definition chunkDocument :: "string \<Rightarrow> int \<Rightarrow> int \<Rightarrow> string list option" where
  "chunkDocument content chunkSize overlap =
     (if content = [] then Some []
      else case chunk_loop content chunkSize overlap 0 [] of
             None \<Rightarrow> None
           | Some chunks \<Rightarrow> Some (if length chunks > 0 then chunks else [content]))"

text \<open>
  \<open>in_window\<close>: the positions of \<open>start\<close> from which the loop cannot leave, for an
  overlap that is positive and at most the chunk size.
\<close>

definition in_window :: "string \<Rightarrow> int \<Rightarrow> int \<Rightarrow> int \<Rightarrow> bool" where
  "in_window content chunkSize overlap start \<longleftrightarrow>
     0 < overlap \<and> overlap \<le> chunkSize \<and> 0 \<le> start
       \<and> start \<le> int (length content) - overlap"

text \<open>
  \<open>splitBySentences\<close> splits at every run of white space that follows one of
  \<open>.\<close>, \<open>!\<close>, \<open>?\<close> (a look-behind, then one or more white space characters, matched
  greedily) and drops the pieces that are blank. \<open>split_sentences cur s\<close> is the split
  of the rest \<open>s\<close> when \<open>cur\<close> is the piece read so far; the string ends the last piece,
  which may be empty.
\<close>

definition is_sentence_end :: "char \<Rightarrow> bool" where
  "is_sentence_end c \<longleftrightarrow> c = CHR ''.'' \<or> c = CHR ''!'' \<or> c = CHR ''?''"

function split_sentences :: "string \<Rightarrow> string \<Rightarrow> string list" where
  "split_sentences cur [] = [cur]"
| "split_sentences cur (c # cs) =
     (if is_ws c \<and> cur \<noteq> [] \<and> is_sentence_end (last cur)
      then cur # split_sentences [] (dropWhile is_ws cs)
      else split_sentences (cur @ [c]) cs)"
  by pat_completeness auto
termination
  by (relation "measure (\<lambda>(cur, s). length s)")
     (auto intro: le_imp_less_Suc length_dropWhile_le)

definition splitBySentences :: "string \<Rightarrow> string list" where
  "splitBySentences content =
     filter (\<lambda>s. length (trim s) > 0) (split_sentences [] content)"

text \<open>
  The \<open>for\<close> loop of \<open>intelligentChunk\<close> over the sentences, with the state
  \<open>currentChunk\<close> and \<open>chunks\<close>; the first equation is the code after the loop. An
  empty \<open>currentChunk\<close> is the falsy one.
\<close>

fun chunk_sentences :: "int \<Rightarrow> string \<Rightarrow> string list \<Rightarrow> string list \<Rightarrow> string list" where
  "chunk_sentences targetChunkSize currentChunk chunks [] =
     (if currentChunk \<noteq> [] then chunks @ [currentChunk] else chunks)"
| "chunk_sentences targetChunkSize currentChunk chunks (sentence # rest) =
     (let testChunk = (if currentChunk \<noteq> [] then currentChunk @ '' '' @ sentence else sentence)
      in if int (length testChunk) \<le> targetChunkSize
         then chunk_sentences targetChunkSize testChunk chunks rest
         else chunk_sentences targetChunkSize sentence
                (if currentChunk \<noteq> [] then chunks @ [currentChunk] else chunks) rest)"

definition intelligentChunk :: "string \<Rightarrow> int \<Rightarrow> string list" where
  "intelligentChunk content targetChunkSize =
     chunk_sentences targetChunkSize [] [] (splitBySentences content)"

text \<open>The characters of a string that are not white space, in order.\<close>

definition visible :: "string \<Rightarrow> string" where
  "visible s = filter (\<lambda>c. \<not> is_ws c) s"

section \<open>Context assembly: \<open>buildRAGContext\<close> of \<open>server/rag.ts\<close>\<close>

text \<open>
  An entry of \<open>RAGContext['chunks']\<close> and the context itself. The fields carry a
  prefix so that the source's variable names stay free.
\<close>

record rag_chunk =
  chunk_content :: string
  chunk_similarity :: real
  chunk_documentId :: int
  chunk_title :: string
  chunk_url :: "string option"

record rag_context =
  ctx_chunks :: "rag_chunk list"
  ctx_totalTokens :: int

text \<open>\<open>Math.ceil(text.length / 4)\<close>, in integers.\<close>

definition estimateTokens :: "string \<Rightarrow> int" where
  "estimateTokens text = (int (length text) + 3) div 4"

text \<open>
  The \<open>for\<close> loop of \<open>buildRAGContext\<close> with its state \<open>totalTokens\<close> (here \<open>running\<close>)
  and \<open>selectedChunks\<close>; the \<open>else\<close> branch is the \<open>break\<close>.
\<close>

fun select_chunks :: "int \<Rightarrow> int \<Rightarrow> rag_chunk list \<Rightarrow> rag_chunk list \<Rightarrow> rag_context" where
  "select_chunks maxTokens running selectedChunks [] =
     \<lparr>ctx_chunks = selectedChunks, ctx_totalTokens = running\<rparr>"
| "select_chunks maxTokens running selectedChunks (chunk # rest) =
     (let chunkTokens = estimateTokens (chunk_content chunk)
      in if running + chunkTokens \<le> maxTokens
         then select_chunks maxTokens (running + chunkTokens) (selectedChunks @ [chunk]) rest
         else \<lparr>ctx_chunks = selectedChunks, ctx_totalTokens = running\<rparr>)"

definition buildRAGContext :: "rag_chunk list \<Rightarrow> int \<Rightarrow> rag_context" where
  "buildRAGContext cs maxTokens = select_chunks maxTokens 0 [] cs"

text \<open>The token estimate of a list of chunks.\<close>

definition tokens_of :: "rag_chunk list \<Rightarrow> int" where
  "tokens_of cs = sum_list (map (\<lambda>c. estimateTokens (chunk_content c)) cs)"

section \<open>The services around the pipeline\<close>

text \<open>
  The pipeline talks to a language-model service (\<open>invokeLLM\<close> of \<open>_core/llm\<close>) and,
  through the functions of \<open>server/db.ts\<close>, to a database server. How the two answer
  is not decided by the repository, so it is a parameter of the model. A value the
  model service returns is a JSON value.
\<close>

datatype json =
    JUndefined
  | JNull
  | JBool bool
  | JNum real
  | JStr string
  | JArr "json list"
  | JObj "(string \<times> json) list"

text \<open>
  An embedding is the array the model service returned: \<open>generateEmbedding\<close> hands it on
  unchecked (\<open>as number[]\<close>).
\<close>

type_synonym vector = "json list"

text \<open>
  What a \<open>throw\<close> carries: an \<open>Error\<close> with its message, or any other value.
  \<open>error_message\<close> is the expression
  \<open>error instanceof Error ? error.message : 'Unknown error'\<close> of \<open>processDocument\<close>.
\<close>

datatype error = Error string | Thrown json

fun error_message :: "error \<Rightarrow> string" where
  "error_message (Error m) = m"
| "error_message (Thrown v) = ''Unknown error''"

text \<open>A chat message is a role and a content.\<close>

type_synonym message = "string \<times> string"

text \<open>
  The database at the time of one call of a function of \<open>server/db.ts\<close>: \<open>getDb()\<close>
  returns a handle and the queries succeed, or \<open>getDb()\<close> returns \<open>null\<close> (no
  \<open>DATABASE_URL\<close>, or the connection failed), or a query is rejected with an error.
\<close>

datatype db_condition = Available | Unavailable | Faulty error

text \<open>
  The tables of \<open>drizzle/schema.ts\<close> the pipeline reads and writes, with the columns it
  uses. \<open>doc_url\<close> is \<open>metadata.url\<close>; \<open>dc_tokenCount\<close> is \<open>metadata.tokenCount\<close>.
\<close>

datatype resource_status = Pending | Processing | Completed | Failed

record document =
  doc_id :: int
  doc_projectId :: int
  doc_title :: string
  doc_url :: "string option"
  doc_status :: resource_status
  doc_errorMessage :: "string option"

record document_chunk =
  dc_id :: int
  dc_documentId :: int
  dc_projectId :: int
  dc_content :: string
  dc_chunkIndex :: nat
  dc_tokenCount :: int

record embedding =
  emb_id :: int
  emb_chunkId :: int
  emb_documentId :: int
  emb_projectId :: int
  emb_vector :: vector
  emb_model :: string

record usage_tracking =
  ut_userId :: int
  ut_projectId :: int
  ut_month :: string
  messagesUsedMini :: int
  messagesUsedPremium :: int
  indexedPagesUsed :: int

text \<open>
  The state that changes: the tables, the two \<open>serial\<close> sequences, the number of
  database calls made so far and the requests sent to the model service, oldest first.
\<close>

record world =
  tbl_documents :: "document list"
  tbl_chunks :: "document_chunk list"
  tbl_embeddings :: "embedding list"
  tbl_usage :: "usage_tracking list"
  next_chunk_id :: int
  next_embedding_id :: int
  db_calls :: nat
  llm_log :: "message list list"

text \<open>
  What does not change during a run: how the database answers its \<open>n\<close>-th call, what
  the model service answers to its \<open>n\<close>-th request, the distance operator \<open><=>\<close> of the
  vector store, the configuration read from the environment, and the month of the
  clock (\<open>getCurrentMonth\<close>).
\<close>

record services =
  db_at :: "nat \<Rightarrow> db_condition"
  invokeLLM :: "nat \<Rightarrow> message list \<Rightarrow> error + json"
  cosine_distance :: "vector \<Rightarrow> vector \<Rightarrow> real"
  CHUNK_SIZE :: int
  VECTOR_SIMILARITY_THRESHOLD :: real
  VECTOR_SEARCH_TOP_K :: int
  MAX_CONTEXT_TOKENS :: int
  EMBEDDING_MODEL :: string
  FREE_PLAN_CHATBOTS :: int
  FREE_PLAN_MESSAGES_MINI :: int
  FREE_PLAN_MESSAGES_PREMIUM :: int
  FREE_PLAN_INDEXED_PAGES :: int
  current_month :: string

section \<open>Database functions of \<open>server/db.ts\<close>\<close>

text \<open>
  \<open>storage\<close> is the frame of every writing function of \<open>server/db.ts\<close>:
  \<open>if (!db) throw new Error('Database not available')\<close>, then the query, which may be
  rejected. A call that fails changes nothing but the call counter.
\<close>

definition storage :: "services \<Rightarrow> world \<Rightarrow> (world \<Rightarrow> 'a \<times> world) \<Rightarrow> (error + 'a) \<times> world" where
  "storage sv w run =
     (let w' = w\<lparr>db_calls := db_calls w + 1\<rparr>
      in case db_at sv (db_calls w) of
           Unavailable \<Rightarrow> (Inl (Error ''Database not available''), w')
         | Faulty e \<Rightarrow> (Inl e, w')
         | Available \<Rightarrow> (case run w' of (r, w2) \<Rightarrow> (Inr r, w2)))"

text \<open>
  \<open>updateDocument(id, updates)\<close> for the two shapes of \<open>updates\<close> the pipeline passes:
  a status, or a status and an error message. Every row with that id is updated; none
  is no error.
\<close>

definition apply_update :: "int \<Rightarrow> resource_status \<Rightarrow> string option \<Rightarrow> document \<Rightarrow> document" where
  "apply_update ident status errorMessage d =
     (if doc_id d = ident
      then (case errorMessage of
              None \<Rightarrow> d\<lparr>doc_status := status\<rparr>
            | Some m \<Rightarrow> d\<lparr>doc_status := status, doc_errorMessage := Some m\<rparr>)
      else d)"

definition updateDocument ::
  "services \<Rightarrow> world \<Rightarrow> int \<Rightarrow> resource_status \<Rightarrow> string option \<Rightarrow> (error + unit) \<times> world" where
  "updateDocument sv w ident status errorMessage =
     storage sv w (\<lambda>w1. ((), w1\<lparr>tbl_documents :=
        map (apply_update ident status errorMessage) (tbl_documents w1)\<rparr>))"

text \<open>
  The two batch inserts return the rows they created; the \<open>id\<close> of a row passed in is
  ignored and taken from the sequence.
\<close>

definition createDocumentChunkBatch ::
  "services \<Rightarrow> world \<Rightarrow> document_chunk list \<Rightarrow> (error + document_chunk list) \<times> world" where
  "createDocumentChunkBatch sv w rows =
     storage sv w (\<lambda>w1.
       let created = map (\<lambda>(i, r). r\<lparr>dc_id := next_chunk_id w1 + int i\<rparr>) (enumerate 0 rows)
       in (created, w1\<lparr>tbl_chunks := tbl_chunks w1 @ created,
                         next_chunk_id := next_chunk_id w1 + int (length rows)\<rparr>))"

definition createEmbeddingBatch ::
  "services \<Rightarrow> world \<Rightarrow> embedding list \<Rightarrow> (error + embedding list) \<times> world" where
  "createEmbeddingBatch sv w rows =
     storage sv w (\<lambda>w1.
       let created = map (\<lambda>(i, r). r\<lparr>emb_id := next_embedding_id w1 + int i\<rparr>) (enumerate 0 rows)
       in (created, w1\<lparr>tbl_embeddings := tbl_embeddings w1 @ created,
                         next_embedding_id := next_embedding_id w1 + int (length rows)\<rparr>))"

record search_row =
  row_id :: int
  row_chunkId :: int
  row_documentId :: int
  row_content :: string
  row_title :: string
  row_url :: "string option"
  row_similarity :: real

text \<open>
  The query of \<open>vectorSearch\<close> in \<open>server/db.ts\<close>: embeddings joined with their chunk
  and their document, filtered by \<open>e.project_id\<close> and by
  \<open>1 - (e.vector <=> query) > threshold\<close>, ordered by similarity, highest first (rows of
  equal similarity keep the order of the join), cut at \<open>limit\<close>. Without a database
  the function returns the empty list; a negative \<open>LIMIT\<close> is an error of the database.
\<close>

definition joined_rows :: "services \<Rightarrow> world \<Rightarrow> int \<Rightarrow> vector \<Rightarrow> real \<Rightarrow> search_row list" where
  "joined_rows sv w projectId v threshold =
     [\<lparr>row_id = emb_id e, row_chunkId = emb_chunkId e, row_documentId = emb_documentId e,
       row_content = dc_content dc, row_title = doc_title d, row_url = doc_url d,
       row_similarity = 1 - cosine_distance sv (emb_vector e) v\<rparr>.
        e \<leftarrow> tbl_embeddings w,
        dc \<leftarrow> tbl_chunks w, emb_chunkId e = dc_id dc,
        d \<leftarrow> tbl_documents w, emb_documentId e = doc_id d,
        emb_projectId e = projectId \<and> 1 - cosine_distance sv (emb_vector e) v > threshold]"

definition db_vectorSearch ::
  "services \<Rightarrow> world \<Rightarrow> int \<Rightarrow> vector \<Rightarrow> int \<Rightarrow> real \<Rightarrow> (error + search_row list) \<times> world" where
  "db_vectorSearch sv w projectId v limit threshold =
     (let w1 = w\<lparr>db_calls := db_calls w + 1\<rparr>
      in case db_at sv (db_calls w) of
           Unavailable \<Rightarrow> (Inr [], w1)
         | Faulty e \<Rightarrow> (Inl e, w1)
         | Available \<Rightarrow>
             (if limit < 0 then (Inl (Error ''LIMIT must not be negative''), w1)
              else (Inr (take (nat limit)
                      (sort_key (\<lambda>r. - row_similarity r)
                         (joined_rows sv w projectId v threshold))), w1)))"

text \<open>
  \<open>getOrCreateUsageTracking\<close>: the record of the user, project and month, created
  with zero counters when there is none.
\<close>

definition getOrCreateUsageTracking ::
  "services \<Rightarrow> world \<Rightarrow> int \<Rightarrow> int \<Rightarrow> string \<Rightarrow> (error + usage_tracking) \<times> world" where
  "getOrCreateUsageTracking sv w userId projectId month =
     storage sv w (\<lambda>w1.
       case filter (\<lambda>u. ut_userId u = userId \<and> ut_projectId u = projectId \<and> ut_month u = month)
              (tbl_usage w1) of
         existing # others \<Rightarrow> (existing, w1)
       | [] \<Rightarrow>
           (let created = \<lparr>ut_userId = userId, ut_projectId = projectId, ut_month = month,
                           messagesUsedMini = 0, messagesUsedPremium = 0, indexedPagesUsed = 0\<rparr>
            in (created, w1\<lparr>tbl_usage := tbl_usage w1 @ [created]\<rparr>)))"

section \<open>Embedding, ingestion and retrieval of \<open>server/rag.ts\<close>\<close>

text \<open>One request to the model service, recorded in the log.\<close>

definition call_llm :: "services \<Rightarrow> world \<Rightarrow> message list \<Rightarrow> (error + json) \<times> world" where
  "call_llm sv w request =
     (invokeLLM sv (length (llm_log w)) request, w\<lparr>llm_log := llm_log w @ [request]\<rparr>)"

definition generateEmbedding :: "services \<Rightarrow> world \<Rightarrow> string \<Rightarrow> (error + vector) \<times> world" where
  "generateEmbedding sv w text =
     (if length (trim text) = 0 then (Inl (Error ''Text cannot be empty''), w)
      else (case call_llm sv w [(''user'', text)] of
              (Inl e, w1) \<Rightarrow> (Inl e, w1)
            | (Inr (JArr xs), w1) \<Rightarrow> (Inr xs, w1)
            | (Inr other, w1) \<Rightarrow> (Inl (Error ''Invalid embedding response''), w1)))"

text \<open>
  \<open>generateEmbeddingsBatch\<close>: batches of 10, one after the other. Within a batch
  \<open>Promise.all\<close> starts every request, so all of them reach the service; the batch
  fails with the error of the first chunk that failed (in the order of the batch; the
  source takes the first in time).
\<close>

fun embed_each :: "services \<Rightarrow> world \<Rightarrow> string list \<Rightarrow> (error + vector) list \<times> world" where
  "embed_each sv w [] = ([], w)"
| "embed_each sv w (chunk # rest) =
     (case generateEmbedding sv w chunk of
        (r, w1) \<Rightarrow> (case embed_each sv w1 rest of (rs, w2) \<Rightarrow> (r # rs, w2)))"

fun first_error :: "(error + 'a) list \<Rightarrow> error option" where
  "first_error [] = None"
| "first_error (Inl e # rs) = Some e"
| "first_error (Inr v # rs) = first_error rs"

fun fulfilled :: "(error + 'a) list \<Rightarrow> 'a list" where
  "fulfilled [] = []"
| "fulfilled (Inl e # rs) = fulfilled rs"
| "fulfilled (Inr v # rs) = v # fulfilled rs"

function embed_batches ::
  "services \<Rightarrow> world \<Rightarrow> vector list \<Rightarrow> string list \<Rightarrow> (error + vector list) \<times> world" where
  "embed_batches sv w embeddings chunks =
     (if chunks = [] then (Inr embeddings, w)
      else (case embed_each sv w (take 10 chunks) of
              (rs, w1) \<Rightarrow>
                (case first_error rs of
                   Some e \<Rightarrow> (Inl e, w1)
                 | None \<Rightarrow> embed_batches sv w1 (embeddings @ fulfilled rs) (drop 10 chunks))))"
  by pat_completeness auto
termination
  by (relation "measure (\<lambda>(sv, w, embeddings, chunks). length chunks)") auto

declare embed_batches.simps [simp del]

definition generateEmbeddingsBatch ::
  "services \<Rightarrow> world \<Rightarrow> string list \<Rightarrow> (error + vector list) \<times> world" where
  "generateEmbeddingsBatch sv w chunks =
     (if chunks = [] then (Inr [], w) else embed_batches sv w [] chunks)"

text \<open>
  \<open>processDocument\<close>: \<open>processDocument_try\<close> is the \<open>try\<close> block, each \<open>await\<close> a step
  that may throw; \<open>processDocument\<close> adds the \<open>catch\<close> block, which writes the status
  \<open>failed\<close> with the message and throws the error again, unless that write throws.
\<close>

definition processDocument_try ::
  "services \<Rightarrow> world \<Rightarrow> int \<Rightarrow> int \<Rightarrow> string \<Rightarrow> (error + unit) \<times> world" where
  "processDocument_try sv w documentId projectId content =
     (case updateDocument sv w documentId Processing None of
        (Inl e, w1) \<Rightarrow> (Inl e, w1)
      | (Inr u, w1) \<Rightarrow>
          (let chunks = intelligentChunk content (CHUNK_SIZE sv)
           in if length chunks = 0 then (Inl (Error ''No chunks generated from document''), w1)
              else (case createDocumentChunkBatch sv w1
                          (map (\<lambda>(index, chunk).
                                  \<lparr>dc_id = 0, dc_documentId = documentId, dc_projectId = projectId,
                                   dc_content = chunk, dc_chunkIndex = index,
                                   dc_tokenCount = estimateTokens chunk\<rparr>)
                               (enumerate 0 chunks)) of
                     (Inl e, w2) \<Rightarrow> (Inl e, w2)
                   | (Inr createdChunks, w2) \<Rightarrow>
                       (case generateEmbeddingsBatch sv w2 chunks of
                          (Inl e, w3) \<Rightarrow> (Inl e, w3)
                        | (Inr embeddings, w3) \<Rightarrow>
                            if length embeddings \<noteq> length createdChunks
                            then (Inl (Error ''Embedding count mismatch with chunk count''), w3)
                            else (case createEmbeddingBatch sv w3
                                        (map (\<lambda>(index, embedding).
                                                \<lparr>emb_id = 0,
                                                 emb_chunkId = dc_id (createdChunks ! index),
                                                 emb_documentId = documentId,
                                                 emb_projectId = projectId,
                                                 emb_vector = embedding,
                                                 emb_model = EMBEDDING_MODEL sv\<rparr>)
                                             (enumerate 0 embeddings)) of
                                   (Inl e, w4) \<Rightarrow> (Inl e, w4)
                                 | (Inr created, w4) \<Rightarrow>
                                     updateDocument sv w4 documentId Completed None)))))"

definition processDocument ::
  "services \<Rightarrow> world \<Rightarrow> int \<Rightarrow> int \<Rightarrow> string \<Rightarrow> (error + unit) \<times> world" where
  "processDocument sv w documentId projectId content =
     (case processDocument_try sv w documentId projectId content of
        (Inr u, w1) \<Rightarrow> (Inr u, w1)
      | (Inl error, w1) \<Rightarrow>
          (case updateDocument sv w1 documentId Failed (Some (error_message error)) of
             (Inl e, w2) \<Rightarrow> (Inl e, w2)
           | (Inr u, w2) \<Rightarrow> (Inl error, w2)))"

definition to_rag_chunk :: "search_row \<Rightarrow> rag_chunk" where
  "to_rag_chunk result =
     \<lparr>chunk_content = row_content result, chunk_similarity = row_similarity result,
      chunk_documentId = row_documentId result, chunk_title = row_title result,
      chunk_url = row_url result\<rparr>"

text \<open>
  \<open>vectorSearch\<close> of \<open>server/rag.ts\<close>: a blank query gives the empty list, and so does
  every error of the embedding or of the database (the \<open>catch\<close> block).
\<close>

definition vectorSearch ::
  "services \<Rightarrow> world \<Rightarrow> int \<Rightarrow> string \<Rightarrow> int \<Rightarrow> real \<Rightarrow> rag_chunk list \<times> world" where
  "vectorSearch sv w projectId query limit threshold =
     (if length (trim query) = 0 then ([], w)
      else (case generateEmbedding sv w query of
              (Inl e, w1) \<Rightarrow> ([], w1)
            | (Inr queryEmbedding, w1) \<Rightarrow>
                (case db_vectorSearch sv w1 projectId queryEmbedding limit threshold of
                   (Inl e, w2) \<Rightarrow> ([], w2)
                 | (Inr results, w2) \<Rightarrow> (map to_rag_chunk results, w2))))"

text \<open>
  \<open>formatContextForPrompt\<close>. \<open>decimal\<close> prints the source number \<open>index + 1\<close> the
  way a template literal does; \<open>digit_char\<close> is only applied to a digit below 10.
\<close>

definition digit_char :: "nat \<Rightarrow> char" where
  "digit_char d = ''0123456789'' ! d"

function decimal :: "nat \<Rightarrow> string" where
  "decimal n =
     (if n div 10 = 0 then [digit_char n]
      else decimal (n div 10) @ [digit_char (n mod 10)])"
  by pat_completeness auto
termination
  by (relation "measure id") auto

declare decimal.simps [simp del]

definition join :: "string \<Rightarrow> string list \<Rightarrow> string" where
  "join sep xs = (case xs of [] \<Rightarrow> [] | y # ys \<Rightarrow> y @ concat (map (\<lambda>z. sep @ z) ys))"

definition format_chunk :: "nat \<times> rag_chunk \<Rightarrow> string" where
  "format_chunk = (\<lambda>(index, chunk).
     ''[Source '' @ decimal (index + 1) @ '': '' @ chunk_title chunk
       @ (case chunk_url chunk of
            None \<Rightarrow> []
          | Some u \<Rightarrow> if u = [] then [] else '' ('' @ u @ '')'')
       @ '']'' @ [CHR 0x0A] @ chunk_content chunk)"

definition formatContextForPrompt :: "rag_context \<Rightarrow> string" where
  "formatContextForPrompt context =
     (if length (ctx_chunks context) = 0 then []
      else ''Context from knowledge base:'' @ [CHR 0x0A, CHR 0x0A]
             @ join ([CHR 0x0A, CHR 0x0A] @ ''---'' @ [CHR 0x0A, CHR 0x0A])
                 (map format_chunk (enumerate 0 (ctx_chunks context))))"

text \<open>
  \<open>generateRAGResponse\<close>. \<open>response_content\<close> is
  \<open>response?.choices?.[0]?.message?.content\<close>: reading a property of \<open>undefined\<close> or
  \<open>null\<close> gives \<open>undefined\<close>, and so does a property the value does not have.
\<close>

datatype model = Mini | Premium

definition systemPrompt :: string where
  "systemPrompt =
     ''You are a helpful assistant. Use the provided context to answer questions accurately.''
     @ [CHR 0x0A]
     @ ''If the context doesn't contain relevant information, say so clearly.''
     @ [CHR 0x0A]
     @ ''Always cite your sources when using information from the context.''"

fun property :: "string \<Rightarrow> json \<Rightarrow> json" where
  "property name (JObj kvs) = (case map_of kvs name of Some v \<Rightarrow> v | None \<Rightarrow> JUndefined)"
| "property name other = JUndefined"

fun item0 :: "json \<Rightarrow> json" where
  "item0 (JArr (x # xs)) = x"
| "item0 (JObj kvs) = (case map_of kvs ''0'' of Some v \<Rightarrow> v | None \<Rightarrow> JUndefined)"
| "item0 (JStr (c # cs)) = JStr [c]"
| "item0 other = JUndefined"

definition response_content :: "json \<Rightarrow> json" where
  "response_content response = property ''content'' (property ''message'' (item0 (property ''choices'' response)))"

definition rag_request :: "string \<Rightarrow> rag_context \<Rightarrow> message list" where
  "rag_request query context =
     [(''system'', systemPrompt),
      (''user'', formatContextForPrompt context @ [CHR 0x0A, CHR 0x0A] @ ''User question: ''
                  @ sanitizeUserInput query)]"

definition generateRAGResponse ::
  "services \<Rightarrow> world \<Rightarrow> string \<Rightarrow> rag_context \<Rightarrow> model \<Rightarrow> (error + string) \<times> world" where
  "generateRAGResponse sv w query context mdl =
     (case call_llm sv w (rag_request query context) of
        (Inl e, w1) \<Rightarrow> (Inl e, w1)
      | (Inr response, w1) \<Rightarrow>
          (case response_content response of
             JStr s \<Rightarrow> (Inr s, w1)
           | other \<Rightarrow> (Inr ''Unable to generate response'', w1)))"

text \<open>
  The part of \<open>sendMessage\<close> in \<open>routers/chat.router.ts\<close> from the comment
  "Sanitize user input" to the generated response: search, context, answer. It runs
  once the project, the usage limits and the conversation have been checked.
\<close>

definition sendMessage_answer ::
  "services \<Rightarrow> world \<Rightarrow> int \<Rightarrow> string \<Rightarrow> model \<Rightarrow> (error + string) \<times> world" where
  "sendMessage_answer sv w projectId message mdl =
     (let sanitizedMessage = message
      in case vectorSearch sv w projectId sanitizedMessage
                (VECTOR_SEARCH_TOP_K sv) (VECTOR_SIMILARITY_THRESHOLD sv) of
           (searchResults, w1) \<Rightarrow>
             (let relevantChunks = searchResults;
                  context = buildRAGContext relevantChunks (MAX_CONTEXT_TOKENS sv)
              in generateRAGResponse sv w1 sanitizedMessage context mdl))"

section \<open>Usage limits of \<open>server/billing.ts\<close>\<close>

datatype plan_type = Free | Pro | Enterprise

record plan_limits =
  chatbots :: int
  messagesPerModelMini :: int
  messagesPerModelPremium :: int
  indexedPages :: int

record usage_check =
  allowed :: bool
  reason :: "string option"

fun getPlanLimits :: "services \<Rightarrow> plan_type \<Rightarrow> plan_limits" where
  "getPlanLimits sv Free =
     \<lparr>chatbots = FREE_PLAN_CHATBOTS sv, messagesPerModelMini = FREE_PLAN_MESSAGES_MINI sv,
      messagesPerModelPremium = FREE_PLAN_MESSAGES_PREMIUM sv,
      indexedPages = FREE_PLAN_INDEXED_PAGES sv\<rparr>"
| "getPlanLimits sv Pro =
     \<lparr>chatbots = 50, messagesPerModelMini = 100000, messagesPerModelPremium = 10000,
      indexedPages = 10000\<rparr>"
| "getPlanLimits sv Enterprise =
     \<lparr>chatbots = - 1, messagesPerModelMini = - 1, messagesPerModelPremium = - 1,
      indexedPages = - 1\<rparr>"

definition checkUsageLimits ::
  "services \<Rightarrow> world \<Rightarrow> int \<Rightarrow> int \<Rightarrow> plan_type \<Rightarrow> usage_check \<times> world" where
  "checkUsageLimits sv w userId projectId planType =
     (let limits = getPlanLimits sv planType;
          month = current_month sv
      in case getOrCreateUsageTracking sv w userId projectId month of
           (Inl e, w1) \<Rightarrow> (\<lparr>allowed = True, reason = None\<rparr>, w1)
         | (Inr usage, w1) \<Rightarrow>
             (if messagesPerModelMini limits > 0
                  \<and> messagesUsedMini usage \<ge> messagesPerModelMini limits
              then \<lparr>allowed = False, reason = Some ''Mini model message limit exceeded''\<rparr>
              else if messagesPerModelPremium limits > 0
                  \<and> messagesUsedPremium usage \<ge> messagesPerModelPremium limits
              then \<lparr>allowed = False, reason = Some ''Premium model message limit exceeded''\<rparr>
              else if indexedPages limits > 0 \<and> indexedPagesUsed usage \<ge> indexedPages limits
              then \<lparr>allowed = False, reason = Some ''Indexed pages limit exceeded''\<rparr>
              else \<lparr>allowed = True, reason = None\<rparr>, w1))"

section \<open>Concrete services and states\<close>

text \<open>
  The operator \<open><=>\<close> of the vector store (the pgvector extension of PostgreSQL, not
  code of the repository) is the cosine distance. \<open>pg_cosine_distance\<close> is that
  distance for arrays of numbers that are not zero vectors. Only the concrete runs
  below use it: every general statement holds for any operator.
\<close>

fun number_of :: "json \<Rightarrow> real" where
  "number_of (JNum r) = r"
| "number_of other = 0"

definition dot :: "vector \<Rightarrow> vector \<Rightarrow> real" where
  "dot a b = sum_list (map (\<lambda>(x, y). number_of x * number_of y) (zip a b))"

definition pg_cosine_distance :: "vector \<Rightarrow> vector \<Rightarrow> real" where
  "pg_cosine_distance a b = 1 - dot a b / (sqrt (dot a a) * sqrt (dot b b))"

text \<open>
  Services with the default configuration of the source, a database that answers as
  \<open>db\<close> says, and a model service that answers a request of one message with the
  array \<open>[1, 0]\<close> and any other request with a chat completion.
\<close>

definition demo_services :: "(nat \<Rightarrow> db_condition) \<Rightarrow> services" where
  "demo_services db =
     \<lparr>db_at = db,
      invokeLLM = (\<lambda>n request.
         if length request = 1 then Inr (JArr [JNum 1, JNum 0])
         else Inr (JObj [(''choices'',
                 JArr [JObj [(''message'', JObj [(''content'', JStr ''An answer.'')])]])])),
      cosine_distance = pg_cosine_distance,
      CHUNK_SIZE = 1000, VECTOR_SIMILARITY_THRESHOLD = 0.7, VECTOR_SEARCH_TOP_K = 5,
      MAX_CONTEXT_TOKENS = 2000, EMBEDDING_MODEL = ''text-embedding-3-small'',
      FREE_PLAN_CHATBOTS = 3, FREE_PLAN_MESSAGES_MINI = 1000,
      FREE_PLAN_MESSAGES_PREMIUM = 100, FREE_PLAN_INDEXED_PAGES = 100,
      current_month = ''2026-01''\<rparr>"

text \<open>
  Four databases: one that always answers, one that is never available, one whose
  call number \<open>k\<close> (counted from 0) is rejected, and one that answers \<open>k\<close> calls and
  is not available from then on.
\<close>

definition always_up :: "nat \<Rightarrow> db_condition" where
  "always_up n = Available"

definition always_down :: "nat \<Rightarrow> db_condition" where
  "always_down n = Unavailable"

definition flaky_at :: "nat \<Rightarrow> nat \<Rightarrow> db_condition" where
  "flaky_at k n = (if n = k then Faulty (Error ''connection reset'') else Available)"

definition down_from :: "nat \<Rightarrow> nat \<Rightarrow> db_condition" where
  "down_from k n = (if n < k then Available else Unavailable)"

text \<open>
  A model service that throws \<open>err\<close> at its request number \<open>k\<close> (counted from 0) and
  answers every other request as before.
\<close>

definition model_throws :: "nat \<Rightarrow> error \<Rightarrow> services \<Rightarrow> services" where
  "model_throws k err sv =
     sv\<lparr>invokeLLM := \<lambda>n request. if n = k then Inl err else invokeLLM sv n request\<rparr>"

text \<open>A state with one pending document, number 1 of project 1, and nothing else.\<close>

definition demo_world :: world where
  "demo_world =
     \<lparr>tbl_documents = [\<lparr>doc_id = 1, doc_projectId = 1, doc_title = ''Guide'', doc_url = None,
                         doc_status = Pending, doc_errorMessage = None\<rparr>],
      tbl_chunks = [], tbl_embeddings = [], tbl_usage = [],
      next_chunk_id = 1, next_embedding_id = 1, db_calls = 0, llm_log = []\<rparr>"

text \<open>The state after that document has been ingested without any failure.\<close>

definition demo_ingested :: world where
  "demo_ingested =
     snd (processDocument (demo_services always_up) demo_world 1 1 ''Hello there. How are you?'')"


section \<open>Notions for the statements\<close>

text \<open>
  \<open>same_db w1 w\<close>: the two states have the same tables, sequences and call counter
  (they may differ in the log of the model service).
\<close>

definition same_db :: "world \<Rightarrow> world \<Rightarrow> bool" where
  "same_db w1 w \<longleftrightarrow>
     tbl_documents w1 = tbl_documents w \<and> tbl_chunks w1 = tbl_chunks w
     \<and> tbl_embeddings w1 = tbl_embeddings w \<and> tbl_usage w1 = tbl_usage w
     \<and> next_chunk_id w1 = next_chunk_id w \<and> next_embedding_id w1 = next_embedding_id w
     \<and> db_calls w1 = db_calls w"



text \<open>
  The error a writing database function throws when the database is in a condition
  other than \<open>Available\<close>.
\<close>

fun fault_error :: "db_condition \<Rightarrow> error" where
  "fault_error Unavailable = Error ''Database not available''"
| "fault_error (Faulty e) = e"
| "fault_error Available = Error []"

text \<open>The documents of a state with a given id.\<close>

definition documents_with :: "world \<Rightarrow> int \<Rightarrow> document list" where
  "documents_with w ident = filter (\<lambda>d. doc_id d = ident) (tbl_documents w)"

section \<open>Properties of the fixed-width chunker\<close>

text \<open>
  From a position inside the window the loop moves to a position inside the window:
  the next \<open>start\<close> is \<open>end - overlap\<close>, which is neither negative nor past the last
  window. So a run that starts there returns nothing.
\<close>

lemma chunk_loop_diverges_aux:
  assumes "chunk_loop content chunkSize overlap start chunks = Some r"
  shows "\<not> in_window content chunkSize overlap start"
proof (rule chunk_loop.raw_induct
    [where P = "\<lambda>content chunkSize overlap start chunks r.
                  \<not> in_window content chunkSize overlap start"], goal_cases)
  case (1 loop content chunkSize overlap start chunks r)
  show ?case
  proof
    assume inv: "in_window content chunkSize overlap start"
    let ?end = "min (start + chunkSize) (int (length content))"
    let ?chunk = "trim (substring content start ?end)"
    let ?chunks = "if length ?chunk > 0 then chunks @ [?chunk] else chunks"
    from inv have lt: "start < int (length content)" by (simp add: in_window_def)
    from inv have nn: "\<not> ?end - overlap < 0" by (auto simp: in_window_def)
    from inv have next_inv: "in_window content chunkSize overlap (?end - overlap)"
      by (auto simp: in_window_def)
    from 1(2) lt nn have "loop content chunkSize overlap (?end - overlap) ?chunks = Some r"
      by (simp add: Let_def)
    from 1(1) [OF this] next_inv show False by simp
  qed
qed (rule assms)

lemma chunkDocument_diverges:
  assumes "0 < overlap" "overlap \<le> chunkSize" "overlap \<le> int (length content)"
  shows "chunkDocument content chunkSize overlap = None"
proof -
  have "chunk_loop content chunkSize overlap 0 [] = None"
  proof (cases "chunk_loop content chunkSize overlap 0 []")
    case (Some r)
    from chunk_loop_diverges_aux [OF this] assms show ?thesis by (simp add: in_window_def)
  qed simp
  moreover from assms have "content \<noteq> []" by auto
  ultimately show ?thesis by (simp add: chunkDocument_def)
qed

text \<open>
  The model does return where the source does: a text shorter than the overlap ends
  the loop after one window, and without overlap the windows tile the text.
\<close>

lemma chunkDocument_short_text: "chunkDocument ''This is a test.'' 5 200 = Some [''This'']"
  by (simp add: chunkDocument_def chunk_loop.simps substring_def trim_def is_ws_def)

lemma chunkDocument_no_overlap: "chunkDocument ''abcdef'' 3 0 = Some [''abc'', ''def'']"
  by (simp add: chunkDocument_def chunk_loop.simps substring_def trim_def is_ws_def)

text \<open>
  An overlap equal to the size is not replaced by non-overlapping windows: \<open>start\<close>
  stays at 0.
\<close>

lemma chunkDocument_overlap_eq_size: "chunkDocument ''abcdef'' 3 3 = None"
  by (rule chunkDocument_diverges) simp_all

text \<open>
  Claim C2 says that \<open>chunkDocument\<close> terminates for every text, every size above 0 and
  every overlap from 0 on. The code does not: on the input of the repository's own test
  "should chunk text into smaller pieces" (a text of 2500 characters, size 500, the
  default overlap 200) the loop reaches \<open>start = 2300\<close> and stays there, so the call
  never returns.
\<close>

theorem chunkDocument_test_input_never_returns:
  "chunkDocument (concat (replicate 100 ''This is a test document. '')) 500 200 = None"
  by (rule chunkDocument_diverges) (simp_all add: length_concat sum_list_replicate)

section \<open>Properties of the sentence chunker\<close>

lemma visible_simps [simp]:
  "visible [] = []"
  "visible (c # cs) = (if is_ws c then visible cs else c # visible cs)"
  "visible (a @ b) = visible a @ visible b"
  by (simp_all add: visible_def)










section \<open>Properties of the context assembler\<close>

text \<open>The integer form of the token estimate is the ceiling of a quarter of the length.\<close>

lemma estimateTokens_ceiling: "estimateTokens text = \<lceil>real (length text) / 4\<rceil>"
proof -
  have "\<lceil>real (length text) / 4\<rceil> = \<lceil>real_of_int (int (length text)) / real_of_int 4\<rceil>"
    by simp
  also have "\<dots> = - (- int (length text) div 4)"
    by (rule ceiling_divide_eq_div)
  also have "\<dots> = (int (length text) + 3) div 4"
    by presburger
  finally show ?thesis by (simp add: estimateTokens_def)
qed

lemma estimateTokens_nonneg: "0 \<le> estimateTokens text"
  by (simp add: estimateTokens_def)

lemma tokens_of_nonneg: "0 \<le> tokens_of cs"
  unfolding tokens_of_def by (induction cs) (simp_all add: estimateTokens_nonneg)

lemma tokens_of_Cons: "tokens_of (c # cs) = estimateTokens (chunk_content c) + tokens_of cs"
  by (simp add: tokens_of_def)

lemma select_chunks_spec:
  "\<exists>k \<le> length rest.
     ctx_chunks (select_chunks m running sel rest) = sel @ take k rest
     \<and> ctx_totalTokens (select_chunks m running sel rest) = running + tokens_of (take k rest)
     \<and> (\<forall>j. 0 < j \<and> j \<le> k \<longrightarrow> running + tokens_of (take j rest) \<le> m)
     \<and> (k < length rest \<longrightarrow> m < running + tokens_of (take (Suc k) rest))"
proof (induction m running sel rest rule: select_chunks.induct)
  case (1 m running sel)
  then show ?case by (simp add: tokens_of_def)
next
  case (2 m running sel chunk rest)
  let ?t = "estimateTokens (chunk_content chunk)"
  let ?r = "select_chunks m (running + ?t) (sel @ [chunk]) rest"
  show ?case
  proof (cases "running + ?t \<le> m")
    case True
    from 2 [OF refl True] obtain k where k: "k \<le> length rest"
      "ctx_chunks ?r = (sel @ [chunk]) @ take k rest"
      "ctx_totalTokens ?r = running + ?t + tokens_of (take k rest)"
      "\<forall>j. 0 < j \<and> j \<le> k \<longrightarrow> running + ?t + tokens_of (take j rest) \<le> m"
      "k < length rest \<longrightarrow> m < running + ?t + tokens_of (take (Suc k) rest)"
      by blast
    have eq: "select_chunks m running sel (chunk # rest) = ?r"
      using True by (simp add: Let_def)
    have pre: "\<forall>j. 0 < j \<and> j \<le> Suc k \<longrightarrow> running + tokens_of (take j (chunk # rest)) \<le> m"
    proof (intro allI impI)
      fix j assume j: "0 < j \<and> j \<le> Suc k"
      then obtain i where i: "j = Suc i" "i \<le> k" by (cases j) auto
      show "running + tokens_of (take j (chunk # rest)) \<le> m"
      proof (cases "i = 0")
        case True
        with i \<open>running + ?t \<le> m\<close> show ?thesis by (simp add: tokens_of_def)
      next
        case False
        with i k(4) have "running + ?t + tokens_of (take i rest) \<le> m" by simp
        with i show ?thesis by (simp add: tokens_of_Cons add.assoc)
      qed
    qed
    have nxt: "Suc k < length (chunk # rest) \<longrightarrow>
                 m < running + tokens_of (take (Suc (Suc k)) (chunk # rest))"
      using k(5) by (simp add: tokens_of_Cons add.assoc)
    have "Suc k \<le> length (chunk # rest)
      \<and> ctx_chunks ?r = sel @ take (Suc k) (chunk # rest)
      \<and> ctx_totalTokens ?r = running + tokens_of (take (Suc k) (chunk # rest))"
      using k(1,2,3) by (simp add: tokens_of_Cons add.assoc)
    with pre nxt show ?thesis unfolding eq by blast
  next
    case False
    show ?thesis
      by (rule exI [of _ 0]) (use False in \<open>simp add: tokens_of_def Let_def\<close>)
  qed
qed

lemma buildRAGContext_negative:
  "maxTokens < 0 \<Longrightarrow> buildRAGContext cs maxTokens = \<lparr>ctx_chunks = [], ctx_totalTokens = 0\<rparr>"
proof (cases cs)
  case Nil
  then show ?thesis by (simp add: buildRAGContext_def)
next
  case (Cons c rest)
  assume "maxTokens < 0"
  with estimateTokens_nonneg [of "chunk_content c"]
  have "\<not> 0 + estimateTokens (chunk_content c) \<le> maxTokens" by simp
  with Cons show ?thesis by (simp add: buildRAGContext_def Let_def)
qed

text \<open>
  Claim C7, as the code has it. For every ranked list and every \<open>maxTokens\<close>,
  \<open>buildRAGContext\<close> returns the greedy prefix of the list, whole chunks only, with the
  sum of their token estimates as total: every non-empty prefix up to the selected one
  fits \<open>maxTokens\<close>, and when the selected prefix is not the whole list, the next
  chunk would exceed \<open>maxTokens\<close>. This fixes the selected prefix: it is the longest
  one all of whose non-empty prefixes fit. The total does not exceed \<open>maxTokens\<close> when
  \<open>maxTokens\<close> is not negative; for a negative \<open>maxTokens\<close> nothing is selected and the
  total is 0; and the empty list gives the empty context with total 0.
\<close>

theorem buildRAGContext_greedy:
  "(\<exists>k \<le> length cs.
      ctx_chunks (buildRAGContext cs maxTokens) = take k cs
      \<and> ctx_totalTokens (buildRAGContext cs maxTokens) = tokens_of (take k cs)
      \<and> (\<forall>j. 0 < j \<and> j \<le> k \<longrightarrow> tokens_of (take j cs) \<le> maxTokens)
      \<and> (k < length cs \<longrightarrow>
            maxTokens < tokens_of (take k cs) + estimateTokens (chunk_content (cs ! k))))
   \<and> (0 \<le> maxTokens \<longrightarrow> ctx_totalTokens (buildRAGContext cs maxTokens) \<le> maxTokens)
   \<and> (maxTokens < 0 \<longrightarrow>
         buildRAGContext cs maxTokens = \<lparr>ctx_chunks = [], ctx_totalTokens = 0\<rparr>)
   \<and> buildRAGContext [] maxTokens = \<lparr>ctx_chunks = [], ctx_totalTokens = 0\<rparr>"
proof -
  let ?r = "buildRAGContext cs maxTokens"
  from select_chunks_spec [of cs maxTokens 0 "[]"]
  obtain k where k: "k \<le> length cs" "ctx_chunks ?r = take k cs"
    "ctx_totalTokens ?r = tokens_of (take k cs)"
    "\<forall>j. 0 < j \<and> j \<le> k \<longrightarrow> tokens_of (take j cs) \<le> maxTokens"
    "k < length cs \<longrightarrow> maxTokens < tokens_of (take (Suc k) cs)"
    unfolding buildRAGContext_def by auto
  have nxt: "k < length cs \<longrightarrow>
       maxTokens < tokens_of (take k cs) + estimateTokens (chunk_content (cs ! k))"
    using k(5) by (auto simp: take_Suc_conv_app_nth tokens_of_def)
  have bound: "0 \<le> maxTokens \<longrightarrow> ctx_totalTokens ?r \<le> maxTokens"
  proof (cases "k = 0")
    case True
    with k(3) show ?thesis by (simp add: tokens_of_def)
  next
    case False
    with k(3,4) show ?thesis by simp
  qed
  have neg: "maxTokens < 0 \<longrightarrow> ?r = \<lparr>ctx_chunks = [], ctx_totalTokens = 0\<rparr>"
    using buildRAGContext_negative by blast
  have "buildRAGContext [] maxTokens = \<lparr>ctx_chunks = [], ctx_totalTokens = 0\<rparr>"
    by (simp add: buildRAGContext_def)
  with k(1,2,3,4) nxt bound neg show ?thesis by blast
qed

text \<open>
  Two chunks of 2 and 3 tokens: a budget of 4 takes the first and stops at the second;
  a budget of \<open>- 1\<close> takes none.
\<close>

theorem buildRAGContext_greedy_witness:
  "(0::int) \<le> 4
   \<and> buildRAGContext
        [\<lparr>chunk_content = ''aaaaaaaa'', chunk_similarity = 0.9, chunk_documentId = 1,
           chunk_title = ''A'', chunk_url = None\<rparr>,
         \<lparr>chunk_content = ''bbbbbbbbbbbb'', chunk_similarity = 0.8, chunk_documentId = 2,
           chunk_title = ''B'', chunk_url = None\<rparr>] 4
       = \<lparr>ctx_chunks = [\<lparr>chunk_content = ''aaaaaaaa'', chunk_similarity = 0.9, chunk_documentId = 1,
           chunk_title = ''A'', chunk_url = None\<rparr>], ctx_totalTokens = 2\<rparr>
   \<and> tokens_of (take 1
        [\<lparr>chunk_content = ''aaaaaaaa'', chunk_similarity = 0.9, chunk_documentId = 1,
           chunk_title = ''A'', chunk_url = None\<rparr>,
         \<lparr>chunk_content = ''bbbbbbbbbbbb'', chunk_similarity = 0.8, chunk_documentId = 2,
           chunk_title = ''B'', chunk_url = None\<rparr>]) \<le> 4
   \<and> 4 < tokens_of (take 2
        [\<lparr>chunk_content = ''aaaaaaaa'', chunk_similarity = 0.9, chunk_documentId = 1,
           chunk_title = ''A'', chunk_url = None\<rparr>,
         \<lparr>chunk_content = ''bbbbbbbbbbbb'', chunk_similarity = 0.8, chunk_documentId = 2,
           chunk_title = ''B'', chunk_url = None\<rparr>])
   \<and> (- 1::int) < 0
   \<and> buildRAGContext
        [\<lparr>chunk_content = ''aaaaaaaa'', chunk_similarity = 0.9, chunk_documentId = 1,
           chunk_title = ''A'', chunk_url = None\<rparr>,
         \<lparr>chunk_content = ''bbbbbbbbbbbb'', chunk_similarity = 0.8, chunk_documentId = 2,
           chunk_title = ''B'', chunk_url = None\<rparr>] (- 1)
       = \<lparr>ctx_chunks = [], ctx_totalTokens = 0\<rparr>"
  using buildRAGContext_greedy
    [of "[\<lparr>chunk_content = ''aaaaaaaa'', chunk_similarity = 0.9, chunk_documentId = 1,
           chunk_title = ''A'', chunk_url = None\<rparr>,
         \<lparr>chunk_content = ''bbbbbbbbbbbb'', chunk_similarity = 0.8, chunk_documentId = 2,
           chunk_title = ''B'', chunk_url = None\<rparr>]" 4]
    buildRAGContext_greedy
    [of "[\<lparr>chunk_content = ''aaaaaaaa'', chunk_similarity = 0.9, chunk_documentId = 1,
           chunk_title = ''A'', chunk_url = None\<rparr>,
         \<lparr>chunk_content = ''bbbbbbbbbbbb'', chunk_similarity = 0.8, chunk_documentId = 2,
           chunk_title = ''B'', chunk_url = None\<rparr>]" "- 1"]
  by (simp add: buildRAGContext_def estimateTokens_def tokens_of_def)

text \<open>
  The claim as the specification states it, for every \<open>maxTokens\<close>, fails for a
  negative budget, on the empty list and on any other: nothing is selected and the
  total 0 is above the budget.
\<close>

theorem buildRAGContext_negative_budget:
  "\<not> ctx_totalTokens (buildRAGContext [] (- 1)) \<le> - 1
   \<and> \<not> ctx_totalTokens (buildRAGContext
        [\<lparr>chunk_content = ''aaaaaaaa'', chunk_similarity = 0.9, chunk_documentId = 1,
           chunk_title = ''A'', chunk_url = None\<rparr>,
         \<lparr>chunk_content = ''bbbbbbbbbbbb'', chunk_similarity = 0.8, chunk_documentId = 2,
           chunk_title = ''B'', chunk_url = None\<rparr>] (- 1)) \<le> - 1"
  by (simp add: buildRAGContext_def estimateTokens_def)

section \<open>What the embedding functions leave unchanged\<close>

text \<open>
  The embedding functions write to the log of the model service only, and a batch that
  succeeds returns one vector for each chunk.
\<close>

lemma same_db_refl [simp]: "same_db w w"
  by (simp add: same_db_def)

lemma same_db_trans: "same_db w2 w1 \<Longrightarrow> same_db w1 w \<Longrightarrow> same_db w2 w"
  by (simp add: same_db_def)

lemma generateEmbedding_same_db: "generateEmbedding sv w t = (r, w1) \<Longrightarrow> same_db w1 w"
  by (auto simp: generateEmbedding_def call_llm_def same_db_def
      split: if_splits sum.splits json.splits)

lemma embed_each_same_db: "embed_each sv w ts = (rs, w1) \<Longrightarrow> same_db w1 w"
proof (induction ts arbitrary: w rs w1)
  case Nil
  then show ?case by simp
next
  case (Cons t ts)
  obtain r wa where a: "generateEmbedding sv w t = (r, wa)" by (cases "generateEmbedding sv w t")
  obtain rs' wb where b: "embed_each sv wa ts = (rs', wb)" by (cases "embed_each sv wa ts")
  from Cons.prems a b have "w1 = wb" by simp
  moreover have "same_db wb wa" using Cons.IH [OF b] .
  moreover have "same_db wa w" using generateEmbedding_same_db [OF a] .
  ultimately show ?case using same_db_trans by blast
qed

lemma embed_each_length: "embed_each sv w ts = (rs, w1) \<Longrightarrow> length rs = length ts"
proof (induction ts arbitrary: w rs w1)
  case Nil
  then show ?case by simp
next
  case (Cons t ts)
  obtain r wa where a: "generateEmbedding sv w t = (r, wa)" by (cases "generateEmbedding sv w t")
  obtain rs' wb where b: "embed_each sv wa ts = (rs', wb)" by (cases "embed_each sv wa ts")
  from Cons.prems a b have "rs = r # rs'" by simp
  with Cons.IH [OF b] show ?case by simp
qed

lemma fulfilled_length: "first_error rs = None \<Longrightarrow> length (fulfilled rs) = length rs"
  by (induction rs rule: first_error.induct) auto

lemma embed_batches_spec:
  "embed_batches sv w acc cs = (r, w1) \<Longrightarrow>
     same_db w1 w \<and> (\<forall>vs. r = Inr vs \<longrightarrow> length vs = length acc + length cs)"
proof (induction sv w acc cs arbitrary: r w1 rule: embed_batches.induct)
  case (1 sv w acc cs)
  show ?case
  proof (cases "cs = []")
    case True
    with "1.prems" show ?thesis by (auto simp: embed_batches.simps)
  next
    case False
    obtain rs wa where a: "embed_each sv w (take 10 cs) = (rs, wa)"
      by (cases "embed_each sv w (take 10 cs)")
    have sa: "same_db wa w" using embed_each_same_db [OF a] .
    have la: "length rs = length (take 10 cs)" using embed_each_length [OF a] .
    show ?thesis
    proof (cases "first_error rs")
      case (Some e)
      with "1.prems" False a have "r = Inl e" "w1 = wa"
        by (simp_all add: embed_batches.simps [of sv w acc cs])
      with sa show ?thesis by simp
    next
      case None
      with "1.prems" False a
      have rec: "embed_batches sv wa (acc @ fulfilled rs) (drop 10 cs) = (r, w1)"
        by (simp add: embed_batches.simps [of sv w acc cs])
      from "1.IH" [OF False a [symmetric] None rec]
      have "same_db w1 wa"
        and "\<forall>vs. r = Inr vs \<longrightarrow> length vs = length (acc @ fulfilled rs) + length (drop 10 cs)"
        by simp_all
      moreover have "length (fulfilled rs) = length (take 10 cs)"
        using fulfilled_length [OF None] la by simp
      ultimately show ?thesis using sa same_db_trans by auto
    qed
  qed
qed

lemma generateEmbeddingsBatch_spec:
  "generateEmbeddingsBatch sv w cs = (r, w1) \<Longrightarrow>
     same_db w1 w \<and> (\<forall>vs. r = Inr vs \<longrightarrow> length vs = length cs)"
  using embed_batches_spec [of sv w "[]" cs r w1]
  by (auto simp: generateEmbeddingsBatch_def split: if_splits)

section \<open>The database functions, case by case\<close>

lemma storage_ok:
  "db_at sv (db_calls w) = Available \<Longrightarrow>
     storage sv w run = (case run (w\<lparr>db_calls := db_calls w + 1\<rparr>) of (r, w2) \<Rightarrow> (Inr r, w2))"
  by (simp add: storage_def Let_def)

lemma storage_failed:
  "db_at sv (db_calls w) \<noteq> Available \<Longrightarrow>
     storage sv w run = (Inl (fault_error (db_at sv (db_calls w))), w\<lparr>db_calls := db_calls w + 1\<rparr>)"
  by (cases "db_at sv (db_calls w)") (simp_all add: storage_def Let_def)

lemma updateDocument_ok:
  "db_at sv (db_calls w) = Available \<Longrightarrow>
     updateDocument sv w ident st msg =
       (Inr (), w\<lparr>db_calls := db_calls w + 1,
                   tbl_documents := map (apply_update ident st msg) (tbl_documents w)\<rparr>)"
  by (simp add: updateDocument_def storage_ok)

lemma updateDocument_failed:
  "db_at sv (db_calls w) \<noteq> Available \<Longrightarrow>
     updateDocument sv w ident st msg =
       (Inl (fault_error (db_at sv (db_calls w))), w\<lparr>db_calls := db_calls w + 1\<rparr>)"
  by (simp add: updateDocument_def storage_failed)

lemma createDocumentChunkBatch_ok:
  "db_at sv (db_calls w) = Available \<Longrightarrow>
     createDocumentChunkBatch sv w rows =
       (Inr (map (\<lambda>(i, r). r\<lparr>dc_id := next_chunk_id w + int i\<rparr>) (enumerate 0 rows)),
        w\<lparr>db_calls := db_calls w + 1,
          tbl_chunks := tbl_chunks w
             @ map (\<lambda>(i, r). r\<lparr>dc_id := next_chunk_id w + int i\<rparr>) (enumerate 0 rows),
          next_chunk_id := next_chunk_id w + int (length rows)\<rparr>)"
  by (simp add: createDocumentChunkBatch_def storage_ok Let_def)

lemma createDocumentChunkBatch_failed:
  "db_at sv (db_calls w) \<noteq> Available \<Longrightarrow>
     createDocumentChunkBatch sv w rows =
       (Inl (fault_error (db_at sv (db_calls w))), w\<lparr>db_calls := db_calls w + 1\<rparr>)"
  by (simp add: createDocumentChunkBatch_def storage_failed)

lemma createEmbeddingBatch_ok:
  "db_at sv (db_calls w) = Available \<Longrightarrow>
     createEmbeddingBatch sv w rows =
       (Inr (map (\<lambda>(i, r). r\<lparr>emb_id := next_embedding_id w + int i\<rparr>) (enumerate 0 rows)),
        w\<lparr>db_calls := db_calls w + 1,
          tbl_embeddings := tbl_embeddings w
             @ map (\<lambda>(i, r). r\<lparr>emb_id := next_embedding_id w + int i\<rparr>) (enumerate 0 rows),
          next_embedding_id := next_embedding_id w + int (length rows)\<rparr>)"
  by (simp add: createEmbeddingBatch_def storage_ok Let_def)

lemma createEmbeddingBatch_failed:
  "db_at sv (db_calls w) \<noteq> Available \<Longrightarrow>
     createEmbeddingBatch sv w rows =
       (Inl (fault_error (db_at sv (db_calls w))), w\<lparr>db_calls := db_calls w + 1\<rparr>)"
  by (simp add: createEmbeddingBatch_def storage_failed)

lemma apply_update_id: "doc_id (apply_update ident st msg x) = doc_id x"
  by (cases msg) (simp_all add: apply_update_def)

lemma apply_update_hit:
  "doc_id x = ident \<Longrightarrow>
     doc_status (apply_update ident st msg x) = st
     \<and> (\<forall>m. msg = Some m \<longrightarrow> doc_errorMessage (apply_update ident st msg x) = Some m)"
  by (cases msg) (simp_all add: apply_update_def)

lemma documents_with_update:
  assumes "d \<in> set (documents_with (w\<lparr>tbl_documents := map (apply_update ident st msg) docs\<rparr>) ident)"
  shows "doc_status d = st \<and> (\<forall>m. msg = Some m \<longrightarrow> doc_errorMessage d = Some m)"
proof -
  from assms obtain x where x: "d = apply_update ident st msg x" and i: "doc_id d = ident"
    unfolding documents_with_def by (simp add: image_iff) blast
  from i have "doc_id x = ident" unfolding x by (simp only: apply_update_id)
  from apply_update_hit [OF this] show ?thesis unfolding x .
qed

section \<open>Where an error of the pipeline comes from\<close>

text \<open>
  An error whose message is empty is not one of the pipeline's own: the database
  rejected a call with it, or the model service threw it.
\<close>

lemma fault_error_silent:
  assumes "db_at sv n \<noteq> Available" and "error_message (fault_error (db_at sv n)) = []"
  shows "db_at sv n = Faulty (fault_error (db_at sv n))"
  using assms by (cases "db_at sv n") simp_all

lemma generateEmbedding_silent:
  assumes "generateEmbedding sv w t = (Inl e, w1)" and "error_message e = []"
  shows "\<exists>n request. invokeLLM sv n request = Inl e"
proof (cases "length (trim t) = 0")
  case True
  with assms show ?thesis by (auto simp: generateEmbedding_def)
next
  case False
  show ?thesis
  proof (cases "invokeLLM sv (length (llm_log w)) [(''user'', t)]")
    case (Inl e2)
    with assms False have "e = e2" by (simp add: generateEmbedding_def call_llm_def)
    with Inl show ?thesis by blast
  next
    case (Inr v)
    with assms False show ?thesis
      by (cases v) (auto simp: generateEmbedding_def call_llm_def)
  qed
qed

lemma embed_each_silent:
  assumes "embed_each sv w ts = (rs, w1)" and "first_error rs = Some e"
    and "error_message e = []"
  shows "\<exists>n request. invokeLLM sv n request = Inl e"
  using assms
proof (induction ts arbitrary: w rs w1)
  case Nil
  then show ?case by simp
next
  case (Cons t ts)
  obtain r wa where a: "generateEmbedding sv w t = (r, wa)" by (cases "generateEmbedding sv w t")
  obtain rs' wb where b: "embed_each sv wa ts = (rs', wb)" by (cases "embed_each sv wa ts")
  from Cons.prems(1) a b have rs: "rs = r # rs'" by simp
  show ?case
  proof (cases r)
    case (Inl e2)
    with rs Cons.prems(2) have "e2 = e" by simp
    with a Inl Cons.prems(3) show ?thesis using generateEmbedding_silent by blast
  next
    case (Inr v)
    with rs Cons.prems(2) have "first_error rs' = Some e" by simp
    from Cons.IH [OF b this Cons.prems(3)] show ?thesis .
  qed
qed

lemma embed_batches_silent:
  "embed_batches sv w acc cs = (Inl e, w1) \<Longrightarrow> error_message e = [] \<Longrightarrow>
     \<exists>n request. invokeLLM sv n request = Inl e"
proof (induction sv w acc cs arbitrary: w1 rule: embed_batches.induct)
  case (1 sv w acc cs)
  show ?case
  proof (cases "cs = []")
    case True
    with "1.prems" show ?thesis by (simp add: embed_batches.simps)
  next
    case False
    obtain rs wa where a: "embed_each sv w (take 10 cs) = (rs, wa)"
      by (cases "embed_each sv w (take 10 cs)")
    show ?thesis
    proof (cases "first_error rs")
      case (Some e2)
      with "1.prems"(1) False a have "e2 = e"
        by (simp add: embed_batches.simps [of sv w acc cs])
      with Some have "first_error rs = Some e" by simp
      from embed_each_silent [OF a this "1.prems"(2)] show ?thesis .
    next
      case None
      with "1.prems"(1) False a
      have rec: "embed_batches sv wa (acc @ fulfilled rs) (drop 10 cs) = (Inl e, w1)"
        by (simp add: embed_batches.simps [of sv w acc cs])
      from "1.IH" [OF False a [symmetric] None rec "1.prems"(2)] show ?thesis .
    qed
  qed
qed

lemma generateEmbeddingsBatch_silent:
  "generateEmbeddingsBatch sv w cs = (Inl e, w1) \<Longrightarrow> error_message e = [] \<Longrightarrow>
     \<exists>n request. invokeLLM sv n request = Inl e"
  using embed_batches_silent [of sv w "[]" cs e w1]
  by (auto simp: generateEmbeddingsBatch_def split: if_splits)

section \<open>The steps of \<open>processDocument\<close>\<close>

lemma updateDocument_result:
  assumes "updateDocument sv w ident st msg = (r, w1)"
  shows "db_calls w1 = db_calls w + 1 \<and> tbl_embeddings w1 = tbl_embeddings w
     \<and> tbl_chunks w1 = tbl_chunks w
     \<and> map doc_id (tbl_documents w1) = map doc_id (tbl_documents w)
     \<and> (case r of
          Inr u \<Rightarrow> db_at sv (db_calls w) = Available
            \<and> (\<forall>d \<in> set (documents_with w1 ident). doc_status d = st
                  \<and> (\<forall>m. msg = Some m \<longrightarrow> doc_errorMessage d = Some m))
        | Inl e \<Rightarrow> db_at sv (db_calls w) \<noteq> Available \<and> e = fault_error (db_at sv (db_calls w))
            \<and> tbl_documents w1 = tbl_documents w)"
proof (cases "db_at sv (db_calls w) = Available")
  case True
  from assms have r: "r = Inr ()"
    and w1: "w1 = w\<lparr>db_calls := db_calls w + 1,
                   tbl_documents := map (apply_update ident st msg) (tbl_documents w)\<rparr>"
    unfolding updateDocument_ok [OF True] by simp_all
  have "\<forall>d \<in> set (documents_with w1 ident). doc_status d = st
                  \<and> (\<forall>m. msg = Some m \<longrightarrow> doc_errorMessage d = Some m)"
    unfolding w1 using documents_with_update by blast
  moreover have "db_calls w1 = db_calls w + 1" "tbl_embeddings w1 = tbl_embeddings w"
    "tbl_chunks w1 = tbl_chunks w"
    unfolding w1 by simp_all
  moreover have "map doc_id (tbl_documents w1) = map doc_id (tbl_documents w)"
    unfolding w1 by (simp add: apply_update_id comp_def)
  ultimately show ?thesis using True r by simp
next
  case False
  from assms have "r = Inl (fault_error (db_at sv (db_calls w)))"
    and "w1 = w\<lparr>db_calls := db_calls w + 1\<rparr>"
    unfolding updateDocument_failed [OF False] by simp_all
  with False show ?thesis by simp
qed

text \<open>
  What the \<open>try\<close> block leaves behind: the status \<open>completed\<close> when it returns; the
  embeddings as they were unless the block returned or failed at its fourth database
  call; the documents it found, with the status \<open>processing\<close> when it failed after its
  first write; the chunks it found, followed by those it stored, whose ids come from
  the sequence; and an error with an empty message only from outside the pipeline.
\<close>

lemma processDocument_try_result:
  assumes run: "processDocument_try sv w documentId projectId content = (r, wt)"
  shows "(r = Inr () \<longrightarrow>
           (\<forall>d \<in> set (documents_with wt documentId). doc_status d = Completed))
     \<and> (r = Inr () \<or> tbl_embeddings wt = tbl_embeddings w
          \<or> (db_calls wt = db_calls w + 4 \<and> db_at sv (db_calls w + 3) \<noteq> Available))
     \<and> map doc_id (tbl_documents wt) = map doc_id (tbl_documents w)
     \<and> (r \<noteq> Inr () \<longrightarrow> tbl_documents wt =
           (if db_at sv (db_calls w) = Available
            then map (apply_update documentId Processing None) (tbl_documents w)
            else tbl_documents w))
     \<and> (\<exists>created. tbl_chunks wt = tbl_chunks w @ created
           \<and> (\<forall>dc \<in> set created. next_chunk_id w \<le> dc_id dc))
     \<and> (\<forall>e. r = Inl e \<and> error_message e = [] \<longrightarrow>
           (\<exists>n. db_at sv n = Faulty e) \<or> (\<exists>n request. invokeLLM sv n request = Inl e))"
proof (cases "db_at sv (db_calls w) = Available")
  case False
  from run have r: "r = Inl (fault_error (db_at sv (db_calls w)))"
    and wt: "wt = w\<lparr>db_calls := db_calls w + 1\<rparr>"
    by (simp_all add: processDocument_try_def updateDocument_failed [OF False])
  from fault_error_silent [OF False]
  have "error_message (fault_error (db_at sv (db_calls w))) = [] \<longrightarrow>
          (\<exists>n. db_at sv n = Faulty (fault_error (db_at sv (db_calls w))))" by blast
  with False show ?thesis unfolding r wt by simp
next
  case a0: True
  define w1 where "w1 = w\<lparr>db_calls := db_calls w + 1,
      tbl_documents := map (apply_update documentId Processing None) (tbl_documents w)\<rparr>"
  have u0: "updateDocument sv w documentId Processing None = (Inr (), w1)"
    unfolding w1_def by (rule updateDocument_ok [OF a0])
  have w1: "db_calls w1 = db_calls w + 1" "tbl_embeddings w1 = tbl_embeddings w"
    "tbl_chunks w1 = tbl_chunks w" "next_chunk_id w1 = next_chunk_id w"
    "tbl_documents w1 = map (apply_update documentId Processing None) (tbl_documents w)"
    by (simp_all add: w1_def)
  have ids1: "map doc_id (tbl_documents w1) = map doc_id (tbl_documents w)"
    unfolding w1(5) by (simp add: apply_update_id comp_def)
  define chunks where "chunks = intelligentChunk content (CHUNK_SIZE sv)"
  define rows where "rows = map (\<lambda>(index, chunk).
                                  \<lparr>dc_id = 0, dc_documentId = documentId, dc_projectId = projectId,
                                   dc_content = chunk, dc_chunkIndex = index,
                                   dc_tokenCount = estimateTokens chunk\<rparr>)
                               (enumerate 0 chunks)"
  obtain rc w2 where c: "createDocumentChunkBatch sv w1 rows = (rc, w2)"
    by (cases "createDocumentChunkBatch sv w1 rows")
  obtain re w3 where g: "generateEmbeddingsBatch sv w2 chunks = (re, w3)"
    by (cases "generateEmbeddingsBatch sv w2 chunks")
  note step = run [unfolded processDocument_try_def u0 Let_def
      chunks_def [symmetric] rows_def [symmetric], simplified]
  show ?thesis
  proof (cases "length chunks = 0")
    case True
    with step have "r = Inl (Error ''No chunks generated from document'')" "wt = w1"
      by simp_all
    with w1 ids1 a0 show ?thesis by simp
  next
    case ne: False
    show ?thesis
    proof (cases "db_at sv (db_calls w1) = Available")
      case False
      from c have "rc = Inl (fault_error (db_at sv (db_calls w1)))"
        and "w2 = w1\<lparr>db_calls := db_calls w1 + 1\<rparr>"
        unfolding createDocumentChunkBatch_failed [OF False] by simp_all
      with step ne c have r: "r = Inl (fault_error (db_at sv (db_calls w1)))"
        and wt: "wt = w1\<lparr>db_calls := db_calls w1 + 1\<rparr>" by simp_all
      from fault_error_silent [OF False]
      have "error_message (fault_error (db_at sv (db_calls w1))) = [] \<longrightarrow>
          (\<exists>n. db_at sv n = Faulty (fault_error (db_at sv (db_calls w1))))" by blast
      with w1 ids1 a0 show ?thesis unfolding r wt by simp
    next
      case a1: True
      define created where
        "created = map (\<lambda>(i, r). r\<lparr>dc_id := next_chunk_id w1 + int i\<rparr>) (enumerate 0 rows)"
      from c have rc: "rc = Inr created"
        and w2eq: "w2 = w1\<lparr>db_calls := db_calls w1 + 1,
                         tbl_chunks := tbl_chunks w1 @ created,
                         next_chunk_id := next_chunk_id w1 + int (length rows)\<rparr>"
        unfolding createDocumentChunkBatch_ok [OF a1] created_def by simp_all
      have lc: "length created = length rows" by (simp add: created_def)
      have w2: "db_calls w2 = db_calls w1 + 1" "tbl_embeddings w2 = tbl_embeddings w1"
        "tbl_chunks w2 = tbl_chunks w @ created" "tbl_documents w2 = tbl_documents w1"
        unfolding w2eq by (simp_all add: w1)
      have fresh: "\<forall>dc \<in> set created. next_chunk_id w \<le> dc_id dc"
        unfolding created_def by (auto simp: w1 in_set_enumerate_eq)
      from generateEmbeddingsBatch_spec [OF g]
      have s3: "same_db w3 w2" and le: "\<forall>vs. re = Inr vs \<longrightarrow> length vs = length chunks"
        by simp_all
      from s3 have w3: "db_calls w3 = db_calls w2" "tbl_embeddings w3 = tbl_embeddings w2"
        "tbl_chunks w3 = tbl_chunks w2" "tbl_documents w3 = tbl_documents w2"
        by (simp_all add: same_db_def)
      show ?thesis
      proof (cases re)
        case (Inl e)
        with step ne c g rc have r: "r = Inl e" and wt: "wt = w3" by simp_all
        from g Inl have "error_message e = [] \<longrightarrow> (\<exists>n request. invokeLLM sv n request = Inl e)"
          using generateEmbeddingsBatch_silent by blast
        with w1 w2 w3 ids1 a0 fresh show ?thesis unfolding r wt by simp
      next
        case (Inr embeddings)
        with le lc have same: "length embeddings = length created"
          by (simp add: rows_def)
        let ?embs = "map (\<lambda>(index, embedding).
                                                \<lparr>emb_id = 0,
                                                 emb_chunkId = dc_id (created ! index),
                                                 emb_documentId = documentId,
                                                 emb_projectId = projectId,
                                                 emb_vector = embedding,
                                                 emb_model = EMBEDDING_MODEL sv\<rparr>)
                                             (enumerate 0 embeddings)"
        show ?thesis
        proof (cases "db_at sv (db_calls w3) = Available")
          case False
          have "createEmbeddingBatch sv w3 ?embs =
             (Inl (fault_error (db_at sv (db_calls w3))), w3\<lparr>db_calls := db_calls w3 + 1\<rparr>)"
            by (rule createEmbeddingBatch_failed [OF False])
          with step ne c g rc Inr same have r: "r = Inl (fault_error (db_at sv (db_calls w3)))"
            and wt: "wt = w3\<lparr>db_calls := db_calls w3 + 1\<rparr>" by simp_all
          from fault_error_silent [OF False]
          have "error_message (fault_error (db_at sv (db_calls w3))) = [] \<longrightarrow>
            (\<exists>n. db_at sv n = Faulty (fault_error (db_at sv (db_calls w3))))" by blast
          with w1 w2 w3 ids1 a0 fresh show ?thesis unfolding r wt by simp
        next
          case a2: True
          obtain stored w4 where e4: "createEmbeddingBatch sv w3 ?embs = (Inr stored, w4)"
            and w4: "db_calls w4 = db_calls w3 + 1" "tbl_chunks w4 = tbl_chunks w3"
              "tbl_documents w4 = tbl_documents w3"
            unfolding createEmbeddingBatch_ok [OF a2] by simp
          from step ne c g rc Inr same e4
          have fin: "updateDocument sv w4 documentId Completed None = (r, wt)"
            by simp
          have c4: "db_calls w4 = db_calls w + 3"
            using w4 w3 w2 w1 by simp
          note res = updateDocument_result [OF fin]
          show ?thesis
          proof (cases r)
            case good: (Inr u)
            from res have k: "tbl_chunks wt = tbl_chunks w @ created"
              and ids: "map doc_id (tbl_documents wt) = map doc_id (tbl_documents w)"
              using w4 w3 w2 ids1 by simp_all
            from k fresh have "\<exists>created. tbl_chunks wt = tbl_chunks w @ created
                \<and> (\<forall>dc \<in> set created. next_chunk_id w \<le> dc_id dc)" by blast
            moreover from res good
            have "\<forall>d \<in> set (documents_with wt documentId). doc_status d = Completed"
              by simp
            ultimately show ?thesis using good ids by simp
          next
            case bad: (Inl e)
            from res bad have f: "db_at sv (db_calls w4) \<noteq> Available"
              and e: "e = fault_error (db_at sv (db_calls w4))"
              and d: "tbl_documents wt = tbl_documents w4" by simp_all
            from res have k: "tbl_chunks wt = tbl_chunks w @ created"
              and k2: "map doc_id (tbl_documents wt) = map doc_id (tbl_documents w)"
              "db_calls wt = db_calls w + 4"
              using w4 w3 w2 ids1 c4 by simp_all
            from k fresh have ex: "\<exists>created. tbl_chunks wt = tbl_chunks w @ created
                \<and> (\<forall>dc \<in> set created. next_chunk_id w \<le> dc_id dc)" by blast
            from d have docs: "tbl_documents wt =
                map (apply_update documentId Processing None) (tbl_documents w)"
              using w4 w3 w2 w1 by simp
            from fault_error_silent [OF f] e
            have "error_message e = [] \<longrightarrow> (\<exists>n. db_at sv n = Faulty e)" by auto
            with bad f k2 docs a0 c4 ex show ?thesis by simp
          qed
        qed
      qed
    qed
  qed
qed

section \<open>What a search returns\<close>








section \<open>Properties of the sanitizer\<close>













section \<open>Concrete runs\<close>

text \<open>The definitions a concrete run unfolds.\<close>

lemmas db_defs = storage_def updateDocument_def apply_update_def createDocumentChunkBatch_def
  createEmbeddingBatch_def db_vectorSearch_def joined_rows_def getOrCreateUsageTracking_def
lemmas rag_defs = call_llm_def generateEmbedding_def generateEmbeddingsBatch_def
  embed_batches.simps processDocument_try_def processDocument_def vectorSearch_def
  to_rag_chunk_def
lemmas text_defs = intelligentChunk_def splitBySentences_def trim_def is_ws_def
  is_sentence_end_def estimateTokens_def
lemmas demo_defs = demo_services_def demo_world_def pg_cosine_distance_def dot_def
  always_up_def always_down_def flaky_at_def

text \<open>
  The run that ingests the document of \<open>demo_world\<close> without any failure, and the run
  in which the database rejects the fourth call, the write of the status \<open>completed\<close>:
  chunks and embeddings are stored, and the document ends as \<open>failed\<close>.
\<close>

lemma demo_ingested_eq:
  "processDocument (demo_services always_up) demo_world 1 1 ''Hello there. How are you?'' =
   (Inr (),
    \<lparr>tbl_documents =
       [\<lparr>doc_id = 1, doc_projectId = 1, doc_title = ''Guide'', doc_url = None,
         doc_status = Completed, doc_errorMessage = None\<rparr>],
     tbl_chunks =
       [\<lparr>dc_id = 1, dc_documentId = 1, dc_projectId = 1,
         dc_content = ''Hello there. How are you?'', dc_chunkIndex = 0, dc_tokenCount = 7\<rparr>],
     tbl_embeddings =
       [\<lparr>emb_id = 1, emb_chunkId = 1, emb_documentId = 1, emb_projectId = 1,
         emb_vector = [JNum 1, JNum 0], emb_model = ''text-embedding-3-small''\<rparr>],
     tbl_usage = [], next_chunk_id = 2, next_embedding_id = 2, db_calls = 4,
     llm_log = [[(''user'', ''Hello there. How are you?'')]]\<rparr>)"
  by (simp add: db_defs rag_defs text_defs demo_defs Let_def)


section \<open>Search scope (claim C1)\<close>





section \<open>Sanitizing (claim C3)\<close>

text \<open>
  Claim C3 says that every chat query is sanitized before it is embedded and before it
  reaches a model prompt, and every document text before it is chunked, embedded or
  indexed. In the code \<open>sendMessage\<close> passes \<open>input.message\<close> on under the name
  \<open>sanitizedMessage\<close>, so the first request to the model service carries the query as
  the user wrote it, with the interpolation the sanitizer would remove; and
  \<open>processDocument\<close> stores and embeds the document text as it came.
\<close>

theorem raw_text_reaches_the_model:
  "hd (llm_log (snd (sendMessage_answer (demo_services always_up) demo_world 1
         ''What is ${x}?'' Mini))) = [(''user'', ''What is ${x}?'')]
   \<and> sanitizeUserInput ''What is ${x}?'' = ''What is ?''
   \<and> map dc_content (tbl_chunks (snd (processDocument (demo_services always_up) demo_world 1 1
         ''Ignore {{rules}} now.''))) = [''Ignore {{rules}} now.'']
   \<and> hd (llm_log (snd (processDocument (demo_services always_up) demo_world 1 1
         ''Ignore {{rules}} now.''))) = [(''user'', ''Ignore {{rules}} now.'')]
   \<and> sanitizeUserInput ''Ignore {{rules}} now.'' = ''Ignore  now.''"
  by (simp add: db_defs rag_defs text_defs demo_defs Let_def sendMessage_answer_def
      generateRAGResponse_def buildRAGContext_def sanitizeUserInput_def rag_request_def
      response_content_def formatContextForPrompt_def)

section \<open>Relevance threshold (claim C4)\<close>

text \<open>
  Claim C4 says that a result whose similarity equals the threshold is kept. The only
  relevance filter of the code is the comparison \<open>similarity > threshold\<close> of the
  search query: the chunk of the ingested document has similarity 1 to the query
  vector; a threshold of 0.99 returns it, a threshold of 1 returns nothing.
\<close>

theorem search_drops_equal_score:
  "map chunk_similarity (fst (vectorSearch (demo_services always_up) demo_ingested 1
        ''How are you?'' 5 0.99)) = [1]
   \<and> fst (vectorSearch (demo_services always_up) demo_ingested 1 ''How are you?'' 5 1) = []"
  unfolding demo_ingested_def demo_ingested_eq
  by (simp add: db_defs rag_defs text_defs demo_defs Let_def)

section \<open>Status after ingestion (claim C8)\<close>

text \<open>
  Claim C8, as the code has it. A run of \<open>processDocument\<close> that returns without error
  leaves every document of that id \<open>completed\<close>. A run that fails, and whose last
  database call (the write of the status \<open>failed\<close>) went through, throws the error of
  the \<open>try\<close> block and leaves every document of that id \<open>failed\<close> with the message of
  that error. A run that fails, and whose last database call did not go through, throws
  the error of that call and leaves the documents as the \<open>try\<close> block left them: with
  the status \<open>processing\<close> when the first write of the run went through, untouched
  otherwise. The error of a failed run has an empty message only when the database
  rejected a call with that error or the model service threw it. No run adds or removes
  a document. A text that gives no chunk fails the \<open>try\<close> block with the message
  "No chunks generated from document", once the first write went through.
\<close>

theorem processDocument_status:
  "(processDocument sv w documentId projectId content = (Inr u, w1) \<longrightarrow>
       (\<forall>d \<in> set (documents_with w1 documentId). doc_status d = Completed))
   \<and> (processDocument sv w documentId projectId content = (Inl e, w1)
        \<and> db_at sv (db_calls w1 - 1) = Available \<longrightarrow>
         fst (processDocument_try sv w documentId projectId content) = Inl e
         \<and> (\<forall>d \<in> set (documents_with w1 documentId).
               doc_status d = Failed \<and> doc_errorMessage d = Some (error_message e)))
   \<and> (processDocument sv w documentId projectId content = (Inl e, w1)
        \<and> db_at sv (db_calls w1 - 1) \<noteq> Available \<longrightarrow>
         e = fault_error (db_at sv (db_calls w1 - 1))
         \<and> tbl_documents w1 =
             (if db_at sv (db_calls w) = Available
              then map (apply_update documentId Processing None) (tbl_documents w)
              else tbl_documents w))
   \<and> (processDocument sv w documentId projectId content = (Inl e, w1)
        \<and> error_message e = [] \<longrightarrow>
         (\<exists>n. db_at sv n = Faulty e) \<or> (\<exists>n request. invokeLLM sv n request = Inl e))
   \<and> map doc_id (tbl_documents (snd (processDocument sv w documentId projectId content)))
       = map doc_id (tbl_documents w)
   \<and> (intelligentChunk content (CHUNK_SIZE sv) = [] \<and> db_at sv (db_calls w) = Available \<longrightarrow>
         fst (processDocument_try sv w documentId projectId content)
           = Inl (Error ''No chunks generated from document''))"
proof -
  obtain r wt where t: "processDocument_try sv w documentId projectId content = (r, wt)"
    by (cases "processDocument_try sv w documentId projectId content")
  note tr = processDocument_try_result [OF t]
  have done_ok: "processDocument sv w documentId projectId content = (Inr u, w1) \<longrightarrow>
       (\<forall>d \<in> set (documents_with w1 documentId). doc_status d = Completed)"
  proof
    assume p: "processDocument sv w documentId projectId content = (Inr u, w1)"
    show "\<forall>d \<in> set (documents_with w1 documentId). doc_status d = Completed"
    proof (cases r)
      case (Inr v)
      with p t have "w1 = wt" by (simp add: processDocument_def)
      with tr Inr show ?thesis by simp
    next
      case (Inl error)
      with p t show ?thesis
        by (simp add: processDocument_def split: prod.splits sum.splits)
    qed
  qed
  have failed: "processDocument sv w documentId projectId content = (Inl e, w1)
        \<and> db_at sv (db_calls w1 - 1) = Available \<longrightarrow>
         fst (processDocument_try sv w documentId projectId content) = Inl e
         \<and> (\<forall>d \<in> set (documents_with w1 documentId).
               doc_status d = Failed \<and> doc_errorMessage d = Some (error_message e))"
  proof
    assume "processDocument sv w documentId projectId content = (Inl e, w1)
        \<and> db_at sv (db_calls w1 - 1) = Available"
    then have p: "processDocument sv w documentId projectId content = (Inl e, w1)"
      and up: "db_at sv (db_calls w1 - 1) = Available" by simp_all
    show "fst (processDocument_try sv w documentId projectId content) = Inl e
         \<and> (\<forall>d \<in> set (documents_with w1 documentId).
               doc_status d = Failed \<and> doc_errorMessage d = Some (error_message e))"
    proof (cases r)
      case (Inr v)
      with p t show ?thesis by (simp add: processDocument_def)
    next
      case (Inl error)
      obtain rh w2 where h:
        "updateDocument sv wt documentId Failed (Some (error_message error)) = (rh, w2)"
        by (cases "updateDocument sv wt documentId Failed (Some (error_message error))")
      note res = updateDocument_result [OF h]
      show ?thesis
      proof (cases rh)
        case bad: (Inl e2)
        with p t Inl h have "w1 = w2" by (simp add: processDocument_def)
        with res bad up show ?thesis by simp
      next
        case good: (Inr v)
        with p t Inl h have "w1 = w2" "e = error" by (simp_all add: processDocument_def)
        with res good t Inl show ?thesis by simp
      qed
    qed
  qed
  have lost: "processDocument sv w documentId projectId content = (Inl e, w1)
        \<and> db_at sv (db_calls w1 - 1) \<noteq> Available \<longrightarrow>
         e = fault_error (db_at sv (db_calls w1 - 1))
         \<and> tbl_documents w1 =
             (if db_at sv (db_calls w) = Available
              then map (apply_update documentId Processing None) (tbl_documents w)
              else tbl_documents w)"
  proof
    assume "processDocument sv w documentId projectId content = (Inl e, w1)
        \<and> db_at sv (db_calls w1 - 1) \<noteq> Available"
    then have p: "processDocument sv w documentId projectId content = (Inl e, w1)"
      and down: "db_at sv (db_calls w1 - 1) \<noteq> Available" by simp_all
    show "e = fault_error (db_at sv (db_calls w1 - 1))
         \<and> tbl_documents w1 =
             (if db_at sv (db_calls w) = Available
              then map (apply_update documentId Processing None) (tbl_documents w)
              else tbl_documents w)"
    proof (cases r)
      case (Inr v)
      with p t show ?thesis by (simp add: processDocument_def)
    next
      case (Inl error)
      then have docs: "tbl_documents wt =
             (if db_at sv (db_calls w) = Available
              then map (apply_update documentId Processing None) (tbl_documents w)
              else tbl_documents w)"
        using tr by simp
      obtain rh w2 where h:
        "updateDocument sv wt documentId Failed (Some (error_message error)) = (rh, w2)"
        by (cases "updateDocument sv wt documentId Failed (Some (error_message error))")
      note res = updateDocument_result [OF h]
      show ?thesis
      proof (cases rh)
        case bad: (Inl e2)
        with p t Inl h have "w1 = w2" "e = e2" by (simp_all add: processDocument_def)
        with res bad docs show ?thesis by simp
      next
        case good: (Inr v)
        with p t Inl h have "w1 = w2" by (simp add: processDocument_def)
        with res good down show ?thesis by simp
      qed
    qed
  qed
  have origin: "processDocument sv w documentId projectId content = (Inl e, w1)
        \<and> error_message e = [] \<longrightarrow>
         (\<exists>n. db_at sv n = Faulty e) \<or> (\<exists>n request. invokeLLM sv n request = Inl e)"
  proof
    assume "processDocument sv w documentId projectId content = (Inl e, w1)
        \<and> error_message e = []"
    then have p: "processDocument sv w documentId projectId content = (Inl e, w1)"
      and silent: "error_message e = []" by simp_all
    show "(\<exists>n. db_at sv n = Faulty e) \<or> (\<exists>n request. invokeLLM sv n request = Inl e)"
    proof (cases r)
      case (Inr v)
      with p t show ?thesis by (simp add: processDocument_def)
    next
      case (Inl error)
      obtain rh w2 where h:
        "updateDocument sv wt documentId Failed (Some (error_message error)) = (rh, w2)"
        by (cases "updateDocument sv wt documentId Failed (Some (error_message error))")
      note res = updateDocument_result [OF h]
      show ?thesis
      proof (cases rh)
        case bad: (Inl e2)
        with p t Inl h have "e = e2" by (simp add: processDocument_def)
        with res bad have "db_at sv (db_calls wt) \<noteq> Available"
          and "e = fault_error (db_at sv (db_calls wt))" by simp_all
        with fault_error_silent [of sv "db_calls wt"] silent
        have "db_at sv (db_calls wt) = Faulty e" by simp
        then show ?thesis by blast
      next
        case good: (Inr v)
        with p t Inl h have "e = error" by (simp add: processDocument_def)
        with tr Inl silent show ?thesis by simp
      qed
    qed
  qed
  have ids: "map doc_id (tbl_documents (snd (processDocument sv w documentId projectId content)))
       = map doc_id (tbl_documents w)"
  proof (cases r)
    case (Inr v)
    with t have "snd (processDocument sv w documentId projectId content) = wt"
      by (simp add: processDocument_def)
    with tr show ?thesis by simp
  next
    case (Inl error)
    obtain rh w2 where h:
      "updateDocument sv wt documentId Failed (Some (error_message error)) = (rh, w2)"
      by (cases "updateDocument sv wt documentId Failed (Some (error_message error))")
    from t Inl h have "snd (processDocument sv w documentId projectId content) = w2"
      by (cases rh) (simp_all add: processDocument_def)
    with updateDocument_result [OF h] tr show ?thesis by simp
  qed
  have empty: "intelligentChunk content (CHUNK_SIZE sv) = [] \<and> db_at sv (db_calls w) = Available \<longrightarrow>
         fst (processDocument_try sv w documentId projectId content)
           = Inl (Error ''No chunks generated from document'')"
    by (simp add: processDocument_try_def updateDocument_ok)
  from done_ok failed lost origin ids empty show ?thesis by blast
qed

text \<open>
  Five runs on the document of \<open>demo_world\<close>: one without any failure; one in which the
  database rejects the insert of the chunks; one on the empty text; one in which the
  database goes away after the first write, so that the write of \<open>failed\<close> fails too and
  the document stays \<open>processing\<close>; and one in which the model service throws an error
  with an empty message.
\<close>

theorem processDocument_status_witness:
  "map doc_status (documents_with (snd (processDocument (demo_services always_up) demo_world 1 1
        ''Hello there. How are you?'')) 1) = [Completed]
   \<and> fst (processDocument (demo_services (flaky_at 1)) demo_world 1 1 ''Hello there.'')
        = Inl (Error ''connection reset'')
   \<and> map doc_status (documents_with (snd (processDocument (demo_services (flaky_at 1))
        demo_world 1 1 ''Hello there.'')) 1) = [Failed]
   \<and> map doc_errorMessage (documents_with (snd (processDocument (demo_services (flaky_at 1))
        demo_world 1 1 ''Hello there.'')) 1) = [Some ''connection reset'']
   \<and> fst (processDocument_try (demo_services always_up) demo_world 1 1 [])
        = Inl (Error ''No chunks generated from document'')
   \<and> fst (processDocument (demo_services (down_from 1)) demo_world 1 1 ''Hello there.'')
        = Inl (Error ''Database not available'')
   \<and> map doc_status (tbl_documents (snd (processDocument (demo_services (down_from 1))
        demo_world 1 1 ''Hello there.''))) = [Processing]
   \<and> fst (processDocument (model_throws 0 (Error []) (demo_services always_up))
        demo_world 1 1 ''Hello there.'') = Inl (Error [])
   \<and> invokeLLM (model_throws 0 (Error []) (demo_services always_up)) 0
        [(''user'', ''Hello there.'')] = Inl (Error [])
   \<and> ((\<exists>n. db_at (model_throws 0 (Error []) (demo_services always_up)) n = Faulty (Error []))
        \<or> (\<exists>n request. invokeLLM (model_throws 0 (Error []) (demo_services always_up)) n request
              = Inl (Error [])))"
proof -
  let ?up = "demo_services always_up" and ?fl = "demo_services (flaky_at 1)"
  let ?dn = "demo_services (down_from 1)"
  let ?mt = "model_throws 0 (Error []) (demo_services always_up)"
  obtain w1 where ok: "processDocument ?up demo_world 1 1 ''Hello there. How are you?'' = (Inr (), w1)"
    and docs1: "length (documents_with w1 1) = 1"
    unfolding demo_ingested_eq by (simp add: documents_with_def)
  obtain e w2 where bad: "processDocument ?fl demo_world 1 1 ''Hello there.'' = (Inl e, w2)"
    and e: "e = Error ''connection reset''"
    and last_ok: "db_at ?fl (db_calls w2 - 1) = Available"
    and docs2: "length (documents_with w2 1) = 1"
    by (simp add: db_defs rag_defs text_defs demo_defs Let_def documents_with_def)
  have none: "intelligentChunk [] (CHUNK_SIZE ?up) = [] \<and> db_at ?up (db_calls demo_world) = Available"
    by (simp add: text_defs demo_defs)
  obtain e3 w3 where gone: "processDocument ?dn demo_world 1 1 ''Hello there.'' = (Inl e3, w3)"
    and last_down: "db_at ?dn (db_calls w3 - 1) = Unavailable"
    and first_up: "db_at ?dn (db_calls demo_world) = Available"
    by (simp add: db_defs rag_defs text_defs demo_defs down_from_def Let_def)
  obtain e4 w4 where mute: "processDocument ?mt demo_world 1 1 ''Hello there.'' = (Inl e4, w4)"
    and e4: "e4 = Error []"
    by (simp add: db_defs rag_defs text_defs demo_defs model_throws_def Let_def)
  have thrown: "invokeLLM ?mt 0 [(''user'', ''Hello there.'')] = Inl (Error [])"
    by (simp add: model_throws_def)
  from processDocument_status [where sv = ?up and w = demo_world and documentId = 1
      and projectId = 1 and content = "''Hello there. How are you?''" and ?w1.0 = w1] ok
  have a: "\<forall>d \<in> set (documents_with w1 1). doc_status d = Completed" by simp
  from processDocument_status [where sv = ?fl and w = demo_world and documentId = 1
      and projectId = 1 and content = "''Hello there.''" and e = e and ?w1.0 = w2] bad last_ok
  have b: "\<forall>d \<in> set (documents_with w2 1).
             doc_status d = Failed \<and> doc_errorMessage d = Some (error_message e)" by simp
  from processDocument_status [where sv = ?up and w = demo_world and documentId = 1
      and projectId = 1 and content = "[]"] none
  have c: "fst (processDocument_try ?up demo_world 1 1 []) = Inl (Error ''No chunks generated from document'')"
    by blast
  from processDocument_status [where sv = ?dn and w = demo_world and documentId = 1
      and projectId = 1 and content = "''Hello there.''" and e = e3 and ?w1.0 = w3]
    gone last_down first_up
  have d: "e3 = fault_error Unavailable"
    "tbl_documents w3 = map (apply_update 1 Processing None) (tbl_documents demo_world)"
    by simp_all
  from processDocument_status [where sv = ?mt and w = demo_world and documentId = 1
      and projectId = 1 and content = "''Hello there.''" and e = e4 and ?w1.0 = w4] mute e4
  have f: "(\<exists>n. db_at ?mt n = Faulty (Error []))
        \<or> (\<exists>n request. invokeLLM ?mt n request = Inl (Error []))"
    by simp
  from a docs1 have a': "map doc_status (documents_with w1 1) = [Completed]"
    by (cases "documents_with w1 1") auto
  from b docs2 e have b': "map doc_status (documents_with w2 1) = [Failed]"
    "map doc_errorMessage (documents_with w2 1) = [Some ''connection reset'']"
    by (cases "documents_with w2 1"; auto)+
  from d have d': "e3 = Error ''Database not available''"
    "map doc_status (tbl_documents w3) = [Processing]"
    by (simp_all add: demo_world_def apply_update_def)
  from a' b' c d' f ok bad e gone mute e4 thrown show ?thesis by simp
qed

text \<open>
  The claim as the specification states it, for a failure of any kind and with a
  message that is never empty, fails twice. When the database is not available the run
  fails, the write of the status \<open>failed\<close> fails with it, and the document stays
  \<open>pending\<close>. And when the model service throws an error with an empty message, the
  document ends as \<open>failed\<close> with the empty message recorded.
\<close>

theorem processDocument_database_down:
  "fst (processDocument (demo_services always_down) demo_world 1 1 ''Hello there.'')
     = Inl (Error ''Database not available'')
   \<and> map doc_status (tbl_documents (snd (processDocument (demo_services always_down)
          demo_world 1 1 ''Hello there.''))) = [Pending]
   \<and> fst (processDocument (model_throws 0 (Error []) (demo_services always_up))
          demo_world 1 1 ''Hello there.'') = Inl (Error [])
   \<and> map doc_status (tbl_documents (snd (processDocument
          (model_throws 0 (Error []) (demo_services always_up))
          demo_world 1 1 ''Hello there.''))) = [Failed]
   \<and> map doc_errorMessage (tbl_documents (snd (processDocument
          (model_throws 0 (Error []) (demo_services always_up))
          demo_world 1 1 ''Hello there.''))) = [Some []]"
  by (simp add: db_defs rag_defs text_defs demo_defs model_throws_def Let_def)

section \<open>Malformed model response (claim C9)\<close>

text \<open>
  Claim C9. When the call of the model service succeeds and its response holds no
  string at \<open>choices[0].message.content\<close>, \<open>generateRAGResponse\<close> returns the text
  "Unable to generate response" and raises no error, for every query, context and
  model.
\<close>

theorem generateRAGResponse_fallback:
  assumes "invokeLLM sv (length (llm_log w)) (rag_request query context) = Inr response"
    and "\<forall>s. response_content response \<noteq> JStr s"
  shows "fst (generateRAGResponse sv w query context mdl) = Inr ''Unable to generate response''"
  using assms
  by (cases "response_content response") (simp_all add: generateRAGResponse_def call_llm_def)

theorem generateRAGResponse_fallback_witness:
  "invokeLLM ((demo_services always_up)\<lparr>invokeLLM := \<lambda>n request. Inr (JObj [(''choices'', JArr [])])\<rparr>)
      (length (llm_log demo_world))
      (rag_request ''What is this?'' \<lparr>ctx_chunks = [], ctx_totalTokens = 0\<rparr>)
     = Inr (JObj [(''choices'', JArr [])])
   \<and> response_content (JObj [(''choices'', JArr [])]) = JUndefined
   \<and> fst (generateRAGResponse
        ((demo_services always_up)\<lparr>invokeLLM := \<lambda>n request. Inr (JObj [(''choices'', JArr [])])\<rparr>)
        demo_world ''What is this?'' \<lparr>ctx_chunks = [], ctx_totalTokens = 0\<rparr> Premium)
       = Inr ''Unable to generate response''"
proof -
  let ?S = "(demo_services always_up)\<lparr>invokeLLM := \<lambda>n request. Inr (JObj [(''choices'', JArr [])])\<rparr>"
  let ?ctx = "\<lparr>ctx_chunks = [], ctx_totalTokens = 0\<rparr>"
  have call: "invokeLLM ?S (length (llm_log demo_world)) (rag_request ''What is this?'' ?ctx)
     = Inr (JObj [(''choices'', JArr [])])"
    by simp
  have shape: "response_content (JObj [(''choices'', JArr [])]) = JUndefined"
    by (simp add: response_content_def)
  then have no_string: "\<forall>s. response_content (JObj [(''choices'', JArr [])]) \<noteq> JStr s"
    by simp
  from generateRAGResponse_fallback [OF call no_string, of Premium] call shape
  show ?thesis by simp
qed

section \<open>Usage limits when the usage store fails (claim C10)\<close>

text \<open>
  Claim C10. When reading or creating the usage record of the month throws,
  \<open>checkUsageLimits\<close> answers \<open>allowed: true\<close> with no reason, for every user, project
  and plan.
\<close>

theorem checkUsageLimits_fail_open:
  assumes "fst (getOrCreateUsageTracking sv w userId projectId (current_month sv)) = Inl e"
  shows "fst (checkUsageLimits sv w userId projectId planType) = \<lparr>allowed = True, reason = None\<rparr>"
  using assms
  by (cases "getOrCreateUsageTracking sv w userId projectId (current_month sv)")
     (simp add: checkUsageLimits_def Let_def)

theorem checkUsageLimits_fail_open_witness:
  "fst (getOrCreateUsageTracking (demo_services always_down) demo_world 7 1
          (current_month (demo_services always_down)))
     = Inl (Error ''Database not available'')
   \<and> fst (checkUsageLimits (demo_services always_down) demo_world 7 1 Free)
     = \<lparr>allowed = True, reason = None\<rparr>"
proof -
  have down: "fst (getOrCreateUsageTracking (demo_services always_down) demo_world 7 1
          (current_month (demo_services always_down))) = Inl (Error ''Database not available'')"
    by (simp add: db_defs demo_defs Let_def)
  from checkUsageLimits_fail_open [OF down, of Free] down show ?thesis by simp
qed

text \<open>With the store at hand the limits are enforced: a free plan at its limit is refused.\<close>

lemma checkUsageLimits_blocks:
  "fst (checkUsageLimits (demo_services always_up)
          (demo_world\<lparr>tbl_usage := [\<lparr>ut_userId = 7, ut_projectId = 1, ut_month = ''2026-01'',
             messagesUsedMini = 1000, messagesUsedPremium = 0, indexedPagesUsed = 0\<rparr>]\<rparr>) 7 1 Free)
     = \<lparr>allowed = False, reason = Some ''Mini model message limit exceeded''\<rparr>"
  by (simp add: checkUsageLimits_def db_defs demo_defs Let_def)


end
